theory Spec2Isabelle
  imports Complex_Main "HOL-Library.Sublist"
begin

section \<open>Strings\<close>

text \<open>
  A Python string is modelled as a list of 8-bit characters, each read as the code point
  of the same number (0 to 255).  The string methods below are the interpreter's, on that
  range.  \<open>sub in s\<close> is \<^const>\<open>sublist\<close>.
\<close>

definition is_space :: "char \<Rightarrow> bool" where
  \<comment> \<open>\<open>str.isspace\<close> on one character: the code points that \<open>str.strip()\<close> removes.\<close>
  "is_space c =
     (let n = (of_char c :: nat)
      in (9 \<le> n \<and> n \<le> 13) \<or> (28 \<le> n \<and> n \<le> 32) \<or> n = 133 \<or> n = 160)"

definition strip :: "string \<Rightarrow> string" where
  \<comment> \<open>\<open>s.strip()\<close>: leading and trailing whitespace removed.\<close>
  "strip s = rev (dropWhile is_space (rev (dropWhile is_space s)))"

definition is_upper :: "char \<Rightarrow> bool" where
  "is_upper c =
     (let n = (of_char c :: nat)
      in (65 \<le> n \<and> n \<le> 90) \<or> (192 \<le> n \<and> n \<le> 222 \<and> n \<noteq> 215))"

definition lower_char :: "char \<Rightarrow> char" where
  "lower_char c = (if is_upper c then char_of (of_char c + (32 :: nat)) else c)"

definition lower :: "string \<Rightarrow> string" where
  \<comment> \<open>\<open>s.lower()\<close>\<close>
  "lower s = map lower_char s"

definition is_cased :: "char \<Rightarrow> bool" where
  \<comment> \<open>The characters that \<open>str.title()\<close> counts as letters with a case.\<close>
  "is_cased c =
     (let n = (of_char c :: nat)
      in (65 \<le> n \<and> n \<le> 90) \<or> (97 \<le> n \<and> n \<le> 122) \<or> n = 170 \<or> n = 181 \<or> n = 186
         \<or> (192 \<le> n \<and> n \<noteq> 215 \<and> n \<noteq> 247))"

definition title_char :: "char \<Rightarrow> char" where
  \<comment> \<open>The title-case form of one character.  Of code points 181, 223 and 255 the
      interpreter's form lies beyond code point 255; they are left as they are here.\<close>
  "title_char c =
     (let n = (of_char c :: nat)
      in if (97 \<le> n \<and> n \<le> 122) \<or> (224 \<le> n \<and> n \<le> 254 \<and> n \<noteq> 247)
         then char_of (n - 32) else c)"

fun title_from :: "bool \<Rightarrow> string \<Rightarrow> string" where
  \<comment> \<open>The loop of \<open>str.title()\<close>; the flag is \<open>previous_is_cased\<close>.\<close>
  "title_from previous_is_cased [] = []"
| "title_from previous_is_cased (c # cs) =
     (if previous_is_cased then lower_char c else title_char c) # title_from (is_cased c) cs"

definition title :: "string \<Rightarrow> string" where
  \<comment> \<open>\<open>s.title()\<close>\<close>
  "title s = title_from False s"

fun split_on :: "char \<Rightarrow> string \<Rightarrow> string list" where
  \<comment> \<open>\<open>s.split(sep)\<close> for a one-character separator: never an empty list.\<close>
  "split_on sep [] = [[]]"
| "split_on sep (c # cs) =
     (if c = sep then [] # split_on sep cs
      else (case split_on sep cs of
              [] \<Rightarrow> [[c]]
            | l # ls \<Rightarrow> (c # l) # ls))"

function replace_del :: "string \<Rightarrow> string \<Rightarrow> string" where
  \<comment> \<open>\<open>s.replace(pat, "")\<close>: scanning from the left, each occurrence found is dropped
      and the scan goes on behind it.\<close>
  "replace_del pat [] = []"
| "replace_del pat (c # cs) =
     (if pat \<noteq> [] \<and> prefix pat (c # cs)
      then replace_del pat (drop (length pat) (c # cs))
      else c # replace_del pat cs)"
  by pat_completeness auto
termination
  by (relation "measure (\<lambda>(pat, s). length s)") (auto simp: neq_Nil_conv)

section \<open>Section Parser\<close>

text \<open>
  The loop of \<open>generate_chart\<close> that splits the model's text into the seven entries of
  the dictionary \<open>results\<close>.  The keys of \<open>results\<close> are fixed, so the dictionary is a
  record, and \<open>current_section\<close> ranges over the seven keys or \<open>None\<close>.
\<close>

datatype section_key = Personality | Love | Career | Future | Life | Number | Color

record results =
  personality :: string
  love :: string
  career :: string
  future :: string
  life :: string
  number :: string
  color :: string

definition default_results :: results where
  "default_results =
     \<lparr>personality = [], love = [], career = [], future = [], life = [],
      number = ''7'', color = ''Gold''\<rparr>"

fun get_section :: "results \<Rightarrow> section_key \<Rightarrow> string" where
  \<comment> \<open>\<open>results[key]\<close>\<close>
  "get_section r Personality = personality r"
| "get_section r Love = love r"
| "get_section r Career = career r"
| "get_section r Future = future r"
| "get_section r Life = life r"
| "get_section r Number = number r"
| "get_section r Color = color r"

fun set_section :: "results \<Rightarrow> section_key \<Rightarrow> string \<Rightarrow> results" where
  \<comment> \<open>\<open>results[key] = v\<close>\<close>
  "set_section r Personality v = r\<lparr>personality := v\<rparr>"
| "set_section r Love v = r\<lparr>love := v\<rparr>"
| "set_section r Career v = r\<lparr>career := v\<rparr>"
| "set_section r Future v = r\<lparr>future := v\<rparr>"
| "set_section r Life v = r\<lparr>life := v\<rparr>"
| "set_section r Number v = r\<lparr>number := v\<rparr>"
| "set_section r Color v = r\<lparr>color := v\<rparr>"

fun marker :: "section_key \<Rightarrow> string" where
  "marker Personality = ''SECTION_PERSONALITY:''"
| "marker Love = ''SECTION_LOVE:''"
| "marker Career = ''SECTION_CAREER:''"
| "marker Future = ''SECTION_FUTURE:''"
| "marker Life = ''SECTION_LIFE_PATH:''"
| "marker Number = ''SECTION_LUCKY_NUMBER:''"
| "marker Color = ''SECTION_LUCKY_COLOR:''"

definition clean_line :: "string \<Rightarrow> string" where
  \<comment> \<open>\<open>line.replace("SECTION_", "").replace(":", "")\<close>\<close>
  "clean_line line = replace_del '':'' (replace_del ''SECTION_'' line)"

definition parse_line :: "section_key option \<times> results \<Rightarrow> string \<Rightarrow> section_key option \<times> results" where
  \<comment> \<open>One pass of the loop body; the state is \<open>(current_section, results)\<close>.\<close>
  "parse_line st raw =
     (let current_section = fst st; res = snd st; line = strip raw
      in if sublist ''SECTION_PERSONALITY:'' line then (Some Personality, res)
         else if sublist ''SECTION_LOVE:'' line then (Some Love, res)
         else if sublist ''SECTION_CAREER:'' line then (Some Career, res)
         else if sublist ''SECTION_FUTURE:'' line then (Some Future, res)
         else if sublist ''SECTION_LIFE_PATH:'' line then (Some Life, res)
         else if sublist ''SECTION_LUCKY_NUMBER:'' line then (Some Number, res)
         else if sublist ''SECTION_LUCKY_COLOR:'' line then (Some Color, res)
         else (case current_section of
                 None \<Rightarrow> (current_section, res)
               | Some sec \<Rightarrow>
                   if line = [] then (current_section, res)
                   else if sec \<in> {Number, Color}
                        then (current_section, set_section res sec (clean_line line))
                        else (current_section,
                              set_section res sec (get_section res sec @ clean_line line @ '' ''))))"

definition parse_lines :: "string list \<Rightarrow> section_key option \<times> results" where
  \<comment> \<open>The \<open>for\<close> loop, from \<open>current_section = None\<close> and the default \<open>results\<close>.\<close>
  "parse_lines ls = foldl parse_line (None, default_results) ls"

definition parse_sections :: "string option \<Rightarrow> results" where
  \<comment> \<open>\<open>if analysis:\<close> is false for \<open>None\<close> and for the empty string.\<close>
  "parse_sections analysis =
     (case analysis of
        None \<Rightarrow> default_results
      | Some text \<Rightarrow>
          if text = [] then default_results
          else snd (parse_lines (split_on CHR ''\<newline>'' text)))"

section \<open>Values, exceptions and the outside world\<close>

text \<open>
  A decoded JSON value, as \<open>request.json\<close> hands it to the handler.  An object is the
  list of its entries, looked up with \<^const>\<open>map_of\<close>.  A float is the rational number
  it denotes, or one of the non-finite values.
\<close>

datatype json =
    JNull
  | JBool bool
  | JInt int
  | JFloat rat
  | JNaN
  | JInf
  | JStr string
  | JArr "json list"
  | JObj "(string \<times> json) list"

datatype exn =
    KeyError string
  | AttributeError string
  | TypeError string
  | ValueError string
  | OverflowError string
  | RequestError string
  | LibraryError string

definition squote :: string where
  "squote = [CHR 0x27]"

definition dquote :: string where
  "dquote = [CHR 0x22]"

definition hex_digit :: "nat \<Rightarrow> char" where
  "hex_digit d = (if d < 10 then char_of (48 + d) else char_of (87 + d))"

definition repr_char :: "char \<Rightarrow> char \<Rightarrow> string" where
  \<comment> \<open>One character inside \<open>repr(s)\<close>, \<open>quote\<close> being the quote chosen for the string.\<close>
  "repr_char quote c =
     (let n = (of_char c :: nat)
      in if c = quote \<or> c = CHR 0x5C then [CHR 0x5C, c]
         else if n = 9 then [CHR 0x5C, CHR ''t'']
         else if n = 10 then [CHR 0x5C, CHR ''n'']
         else if n = 13 then [CHR 0x5C, CHR ''r'']
         else if n < 32 \<or> (127 \<le> n \<and> n \<le> 160) \<or> n = 173
              then [CHR 0x5C, CHR ''x'', hex_digit (n div 16), hex_digit (n mod 16)]
         else [c])"

definition py_repr :: "string \<Rightarrow> string" where
  \<comment> \<open>\<open>repr(s)\<close> of a string: in double quotes when it holds a single quote and no
      double quote, in single quotes otherwise.\<close>
  "py_repr s =
     (let quote = (if CHR 0x27 \<in> set s \<and> CHR 0x22 \<notin> set s then CHR 0x22 else CHR 0x27)
      in [quote] @ concat (map (repr_char quote) s) @ [quote])"

fun str_exn :: "exn \<Rightarrow> string" where
  \<comment> \<open>\<open>str(e)\<close>.  A \<open>KeyError\<close> prints the \<open>repr\<close> of its key.\<close>
  "str_exn (KeyError k) = py_repr k"
| "str_exn (AttributeError m) = m"
| "str_exn (TypeError m) = m"
| "str_exn (ValueError m) = m"
| "str_exn (OverflowError m) = m"
| "str_exn (RequestError m) = m"
| "str_exn (LibraryError m) = m"

fun type_name :: "json \<Rightarrow> string" where
  "type_name JNull = ''NoneType''"
| "type_name (JBool b) = ''bool''"
| "type_name (JInt n) = ''int''"
| "type_name (JFloat q) = ''float''"
| "type_name JNaN = ''float''"
| "type_name JInf = ''float''"
| "type_name (JStr s) = ''str''"
| "type_name (JArr xs) = ''list''"
| "type_name (JObj kvs) = ''dict''"

definition no_attribute :: "json \<Rightarrow> string \<Rightarrow> exn" where
  "no_attribute v attr =
     AttributeError (squote @ type_name v @ squote @ '' object has no attribute '' @ squote @ attr @ squote)"

record location =
  lat :: rat
  lng :: rat
  tz :: string
  city :: string

datatype geo_result =
    GeoRaises exn
  | GeoNone
  | GeoLocation rat rat string  \<comment> \<open>latitude, longitude, address\<close>

record subject_args =
  arg_name :: json
  arg_year :: int
  arg_month :: int
  arg_day :: int
  arg_hour :: int
  arg_minute :: int
  arg_city :: "string option"
  arg_lat :: rat
  arg_lng :: rat
  arg_tz_str :: string

record chart =
  sun :: string
  moon :: string
  first_house :: string
  venus :: string
  mars :: string
  jupiter :: string
  saturn :: string

record moment =
  now_year :: int
  now_month :: int
  now_day :: int
  now_hour :: int
  now_minute :: int

text \<open>
  What the process does not decide itself: the geocoding service, the timezone finder, the
  astrology library, the clock, the completion service and its configuration, the
  exception with which the interpreter's \<open>int()\<close> rejects a value, and the interpreter's
  bound on the number of digits of a string that \<open>int()\<close> converts.
\<close>

record externals =
  geocode :: "string \<Rightarrow> geo_result"
  timezone_at :: "rat \<Rightarrow> rat \<Rightarrow> exn + string option"  \<comment> \<open>\<open>lng\<close>, then \<open>lat\<close>\<close>
  AstrologicalSubject :: "subject_args \<Rightarrow> exn + chart"
  datetime_now :: moment
  LLM_AVAILABLE :: bool
  groq_client :: bool  \<comment> \<open>false for \<open>None\<close>\<close>
  create_completion :: "string \<Rightarrow> string \<Rightarrow> nat \<Rightarrow> exn + string option"
  int_error :: "json \<Rightarrow> exn"
  int_max_str_digits :: nat  \<comment> \<open>\<open>sys.get_int_max_str_digits()\<close>; 0 for no limit\<close>

datatype event =
    Geocode string
  | TimezoneAt rat rat
  | Subject subject_args
  | Completion string string nat

section \<open>LLM Gateway\<close>

definition call_llm :: "externals \<Rightarrow> string \<Rightarrow> string \<Rightarrow> nat \<Rightarrow> string option \<times> event list" where
  "call_llm ext system_prompt user_prompt max_tokens =
     (if \<not> LLM_AVAILABLE ext \<or> \<not> groq_client ext then (None, [])
      else (case create_completion ext system_prompt user_prompt max_tokens of
              Inr content \<Rightarrow> (content, [Completion system_prompt user_prompt max_tokens])
            | Inl e \<Rightarrow> (None, [Completion system_prompt user_prompt max_tokens])))"

section \<open>Location Resolver\<close>

definition FALLBACK_CITIES :: "(string \<times> rat \<times> rat \<times> string) list" where
  "FALLBACK_CITIES =
     [(''delhi'', 28.6139, 77.2090, ''Asia/Kolkata''),
      (''mumbai'', 19.0760, 72.8777, ''Asia/Kolkata''),
      (''bangalore'', 12.9716, 77.5946, ''Asia/Kolkata''),
      (''new york'', 40.7128, - 74.0060, ''America/New_York''),
      (''london'', 51.5074, - 0.1278, ''Europe/London'')]"

definition default_location :: location where
  "default_location = \<lparr>lat = 40.7128, lng = - 74.0060, tz = ''America/New_York'', city = ''New York''\<rparr>"

definition get_location_data_body :: "externals \<Rightarrow> string \<Rightarrow> location \<times> event list" where
  \<comment> \<open>The body of \<open>get_location_data\<close>, with the calls it makes to the outside.\<close>
  "get_location_data_body ext city_name =
     (let clean_name = strip (lower city_name)
      in case map_of FALLBACK_CITIES clean_name of
           Some (t_lat, t_lng, t_tz) \<Rightarrow>
             (\<lparr>lat = t_lat, lng = t_lng, tz = t_tz, city = title city_name\<rparr>, [])
         | None \<Rightarrow>
             (case geocode ext city_name of
                GeoRaises e \<Rightarrow> (default_location, [Geocode city_name])
              | GeoNone \<Rightarrow> (default_location, [Geocode city_name])
              | GeoLocation latitude longitude address \<Rightarrow>
                  (case timezone_at ext longitude latitude of
                     Inl e \<Rightarrow> (default_location, [Geocode city_name, TimezoneAt longitude latitude])
                   | Inr tz_str \<Rightarrow>
                       (case split_on CHR '','' address of
                          [] \<Rightarrow> (default_location, [Geocode city_name, TimezoneAt longitude latitude])
                        | first # rest \<Rightarrow>
                            (\<lparr>lat = latitude, lng = longitude,
                              tz = (case tz_str of
                                      None \<Rightarrow> ''UTC''
                                    | Some z \<Rightarrow> if z = [] then ''UTC'' else z),
                              city = first\<rparr>,
                             [Geocode city_name, TimezoneAt longitude latitude])))))"

text \<open>
  \<open>@lru_cache(maxsize=100)\<close>: the cache is the list of its entries, the most recently used
  first, keyed by the argument of the call.
\<close>

type_synonym cache = "(string \<times> location) list"

definition maxsize :: nat where
  "maxsize = 100"

definition get_location_data :: "externals \<Rightarrow> cache \<Rightarrow> string \<Rightarrow> location \<times> event list \<times> cache" where
  "get_location_data ext cache city_name =
     (case map_of cache city_name of
        Some hit \<Rightarrow> (hit, [], (city_name, hit) # filter (\<lambda>e. fst e \<noteq> city_name) cache)
      | None \<Rightarrow>
          (let (result, evs) = get_location_data_body ext city_name
           in (result, evs,
               (city_name, result) # (if maxsize \<le> length cache then butlast cache else cache))))"

definition call_get_location_data ::
    "externals \<Rightarrow> cache \<Rightarrow> json \<Rightarrow> (exn + location) \<times> event list \<times> cache" where
  \<comment> \<open>The call with whatever value the request holds: a list or a dictionary cannot be a
      cache key, and the other values that are no string have no \<open>lower\<close>.  An exception
      leaves no cache entry.\<close>
  "call_get_location_data ext cache v =
     (case v of
        JStr city_name \<Rightarrow>
          (case get_location_data ext cache city_name of
             (result, evs, cache') \<Rightarrow> (Inr result, evs, cache'))
      | JArr xs \<Rightarrow> (Inl (TypeError (''unhashable type: '' @ squote @ ''list'' @ squote)), [], cache)
      | JObj kvs \<Rightarrow> (Inl (TypeError (''unhashable type: '' @ squote @ ''dict'' @ squote)), [], cache)
      | _ \<Rightarrow> (Inl (no_attribute v ''lower''), [], cache))"

section \<open>Request Handler\<close>

subsection \<open>The interpreter's \<open>int()\<close> on a decoded JSON value\<close>

definition is_int_space :: "char \<Rightarrow> bool" where
  \<comment> \<open>The whitespace that \<open>int()\<close> allows around the digits of a string.\<close>
  "is_int_space c =
     (let n = (of_char c :: nat)
      in (9 \<le> n \<and> n \<le> 13) \<or> n = 32 \<or> n = 133 \<or> n = 160)"

definition is_digit :: "char \<Rightarrow> bool" where
  "is_digit c = (48 \<le> (of_char c :: nat) \<and> (of_char c :: nat) \<le> 57)"

definition digit_value :: "char \<Rightarrow> nat" where
  "digit_value c = of_char c - 48"

fun more_digits :: "nat \<Rightarrow> string \<Rightarrow> nat option" where
  \<comment> \<open>After a digit: more digits, each with at most one underscore before it.\<close>
  "more_digits acc [] = Some acc"
| "more_digits acc (c # cs) =
     (if is_digit c then more_digits (10 * acc + digit_value c) cs
      else if c = CHR ''_'' then
        (case cs of
           [] \<Rightarrow> None
         | d # ds \<Rightarrow> if is_digit d then more_digits (10 * acc + digit_value d) ds else None)
      else None)"

definition digits :: "string \<Rightarrow> nat option" where
  "digits s = (case s of [] \<Rightarrow> None | c # cs \<Rightarrow> if is_digit c then more_digits (digit_value c) cs else None)"

definition int_of_str :: "nat \<Rightarrow> string \<Rightarrow> int option" where
  \<comment> \<open>Base 10: whitespace around, an optional sign, digits.  With a limit other than 0, a
      string of more digits than the limit is rejected.\<close>
  "int_of_str limit s =
     (if 0 < limit \<and> limit < length (filter is_digit s) then None
      else (case rev (dropWhile is_int_space (rev (dropWhile is_int_space s))) of
              [] \<Rightarrow> None
            | c # cs \<Rightarrow>
                if c = CHR ''-'' then map_option (\<lambda>n. - int n) (digits cs)
                else if c = CHR ''+'' then map_option int (digits cs)
                else map_option int (digits (c # cs))))"

definition py_int :: "externals \<Rightarrow> json \<Rightarrow> exn + int" where
  \<comment> \<open>\<open>int(v)\<close>: a float is cut towards zero; a value that \<open>int()\<close> rejects raises.\<close>
  "py_int ext v =
     (case v of
        JInt n \<Rightarrow> Inr n
      | JBool b \<Rightarrow> Inr (if b then 1 else 0)
      | JFloat q \<Rightarrow> Inr (if 0 \<le> q then \<lfloor>q\<rfloor> else \<lceil>q\<rceil>)
      | JStr s \<Rightarrow>
          (case int_of_str (int_max_str_digits ext) s of
             Some n \<Rightarrow> Inr n
           | None \<Rightarrow> Inl (int_error ext v))
      | _ \<Rightarrow> Inl (int_error ext v))"

definition int_item :: "externals \<Rightarrow> (string \<times> json) list \<Rightarrow> string \<Rightarrow> exn + int" where
  \<comment> \<open>\<open>int(data[key])\<close>\<close>
  "int_item ext kvs key =
     (case map_of kvs key of
        None \<Rightarrow> Inl (KeyError key)
      | Some v \<Rightarrow> py_int ext v)"

subsection \<open>The two subjects and the prompt\<close>

definition user_subject_args :: "externals \<Rightarrow> (string \<times> json) list \<Rightarrow> location \<Rightarrow> exn + subject_args" where
  \<comment> \<open>The arguments of the first \<open>AstrologicalSubject(...)\<close>, evaluated left to right.\<close>
  "user_subject_args ext kvs loc =
     (let name = (case map_of kvs ''name'' of None \<Rightarrow> JStr ''User'' | Some v \<Rightarrow> v)
      in case int_item ext kvs ''year'' of Inl e \<Rightarrow> Inl e | Inr y \<Rightarrow>
         (case int_item ext kvs ''month'' of Inl e \<Rightarrow> Inl e | Inr mo \<Rightarrow>
         (case int_item ext kvs ''day'' of Inl e \<Rightarrow> Inl e | Inr d \<Rightarrow>
         (case int_item ext kvs ''hour'' of Inl e \<Rightarrow> Inl e | Inr h \<Rightarrow>
         (case int_item ext kvs ''minute'' of Inl e \<Rightarrow> Inl e | Inr mi \<Rightarrow>
            Inr \<lparr>arg_name = name, arg_year = y, arg_month = mo, arg_day = d, arg_hour = h,
                 arg_minute = mi, arg_city = Some (city loc), arg_lat = lat loc,
                 arg_lng = lng loc, arg_tz_str = tz loc\<rparr>)))))"

definition sky_now_args :: "moment \<Rightarrow> location \<Rightarrow> subject_args" where
  \<comment> \<open>The arguments of \<open>AstrologicalSubject("Now", ...)\<close>; no city is passed.\<close>
  "sky_now_args now loc =
     \<lparr>arg_name = JStr ''Now'', arg_year = now_year now, arg_month = now_month now,
      arg_day = now_day now, arg_hour = now_hour now, arg_minute = now_minute now,
      arg_city = None, arg_lat = lat loc, arg_lng = lng loc, arg_tz_str = tz loc\<rparr>"

definition system_prompt :: "string" where
  "system_prompt =
     concat
      [''\<newline>'',
       ''        You are a celebrity astrologer for a luxury magazine.\<newline>'',
       ''        Write a comprehensive '' @ dquote @ ''Book of You'' @ dquote @ '' analysis.\<newline>'',
       ''        Tone: Psychological, Empowering, Elegant. No cheesy newspaper horoscopes.\<newline>'',
       ''        '']"

definition prompt :: "chart \<Rightarrow> chart \<Rightarrow> string" where
  "prompt user sky_now =
     concat
      [''\<newline>'',
       ''        USER CHART:\<newline>'',
       ''        Sun: '' @ sun user @ '', Moon: '' @ moon user @ '', Rising: '' @ first_house user @ ''\<newline>'',
       ''        Venus: '' @ venus user @ '', Mars: '' @ mars user @ '', Jupiter: '' @ jupiter user @ ''\<newline>'',
       ''        \<newline>'',
       ''        CURRENT TRANSITS:\<newline>'',
       ''        Sun: '' @ sun sky_now @ '', Moon: '' @ moon sky_now @ '', Saturn: '' @ saturn sky_now @ ''\<newline>'',
       ''\<newline>'',
       ''        Provide analysis in these EXACT SECTIONS (do not use markdown bolding **):\<newline>'',
       ''\<newline>'',
       ''        SECTION_PERSONALITY:\<newline>'',
       ''        (150 words. Describe their core character based on Sun/Moon/Rising blend. Deep psychological insight.)\<newline>'',
       ''\<newline>'',
       ''        SECTION_LOVE:\<newline>'',
       ''        (100 words. Analyze Venus sign. How do they love? What partner suits them?)\<newline>'',
       ''\<newline>'',
       ''        SECTION_CAREER:\<newline>'',
       ''        (100 words. Analyze Mars and Saturn. Their work style and path to success.)\<newline>'',
       ''\<newline>'',
       ''        SECTION_FUTURE:\<newline>'',
       ''        (150 words. A predictive look at the next 6 months based on current Transits. What is the major theme?)\<newline>'',
       ''\<newline>'',
       ''        SECTION_LIFE_PATH:\<newline>'',
       ''        (50 words. A spiritual summary of their life'' @ squote @ ''s purpose.)\<newline>'',
       ''\<newline>'',
       ''        SECTION_LUCKY_NUMBER:\<newline>'',
       ''        (Just the number, e.g., '' @ dquote @ ''7'' @ dquote @ '')\<newline>'',
       ''\<newline>'',
       ''        SECTION_LUCKY_COLOR:\<newline>'',
       ''        (Just the color name, e.g., '' @ dquote @ ''Emerald Green'' @ dquote @ '')\<newline>'',
       ''        '']"

subsection \<open>\<open>generate_chart\<close>\<close>

definition analysis_json :: "results \<Rightarrow> json" where
  "analysis_json r =
     JObj [(''personality'', JStr (personality r)), (''love'', JStr (love r)),
           (''career'', JStr (career r)), (''future'', JStr (future r)),
           (''life'', JStr (life r)), (''number'', JStr (number r)),
           (''color'', JStr (color r))]"

definition success_body :: "chart \<Rightarrow> results \<Rightarrow> json" where
  "success_body user r =
     JObj [(''success'', JBool True),
           (''data'', JObj [(''sun'', JStr (sun user)), (''moon'', JStr (moon user)),
                            (''rising'', JStr (first_house user)),
                            (''analysis'', analysis_json r)])]"

definition error_body :: "exn \<Rightarrow> json" where
  "error_body e = JObj [(''success'', JBool False), (''error'', JStr (str_exn e))]"

definition chart_and_analysis ::
    "externals \<Rightarrow> (string \<times> json) list \<Rightarrow> location \<Rightarrow> (exn + json) \<times> event list" where
  \<comment> \<open>The \<open>try\<close> block behind the location lookup.\<close>
  "chart_and_analysis ext kvs loc =
     (case user_subject_args ext kvs loc of
        Inl e \<Rightarrow> (Inl e, [])
      | Inr user_args \<Rightarrow>
          (case AstrologicalSubject ext user_args of
             Inl e \<Rightarrow> (Inl e, [Subject user_args])
           | Inr user \<Rightarrow>
               (let now_args = sky_now_args (datetime_now ext) loc
                in case AstrologicalSubject ext now_args of
                     Inl e \<Rightarrow> (Inl e, [Subject user_args, Subject now_args])
                   | Inr sky_now \<Rightarrow>
                       (case call_llm ext system_prompt (prompt user sky_now) 2500 of
                          (analysis, evs) \<Rightarrow>
                            (Inr (success_body user (parse_sections analysis)),
                             [Subject user_args, Subject now_args] @ evs)))))"

definition generate_chart_try ::
    "externals \<Rightarrow> cache \<Rightarrow> exn + json \<Rightarrow> (exn + json) \<times> event list \<times> cache" where
  \<comment> \<open>The \<open>try\<close> block; the third argument is what \<open>request.json\<close> gives or raises.\<close>
  "generate_chart_try ext cache request_json =
     (case request_json of
        Inl e \<Rightarrow> (Inl e, [], cache)
      | Inr data \<Rightarrow>
          (case data of
             JObj kvs \<Rightarrow>
               (case call_get_location_data ext cache
                       (case map_of kvs ''city'' of None \<Rightarrow> JStr ''New York'' | Some v \<Rightarrow> v) of
                  (Inl e, evs, cache') \<Rightarrow> (Inl e, evs, cache')
                | (Inr loc, evs, cache') \<Rightarrow>
                    (case chart_and_analysis ext kvs loc of
                       (r, evs') \<Rightarrow> (r, evs @ evs', cache')))
           | _ \<Rightarrow> (Inl (no_attribute data ''get''), [], cache)))"

definition generate_chart ::
    "externals \<Rightarrow> cache \<Rightarrow> exn + json \<Rightarrow> (nat \<times> json) \<times> event list \<times> cache" where
  \<comment> \<open>The handler: the HTTP status with the JSON body, the calls made, the cache left.\<close>
  "generate_chart ext cache request_json =
     (case generate_chart_try ext cache request_json of
        (Inr body, evs, cache') \<Rightarrow> ((200, body), evs, cache')
      | (Inl e, evs, cache') \<Rightarrow> ((500, error_body e), evs, cache'))"

section \<open>Notions used to state the properties\<close>

definition all_sections :: "section_key list" where
  \<comment> \<open>The seven keys in the order in which the loop tests their markers.\<close>
  "all_sections = [Personality, Love, Career, Future, Life, Number, Color]"

definition find_marker :: "string \<Rightarrow> section_key option" where
  \<comment> \<open>The first key, in that order, whose marker occurs in the line.\<close>
  "find_marker line = find (\<lambda>k. sublist (marker k) line) all_sections"

definition content_lines :: "string list \<Rightarrow> string list" where
  \<comment> \<open>The lines of a block after trimming, the empty ones left out.\<close>
  "content_lines ls = filter (\<lambda>l. l \<noteq> []) (map strip ls)"





definition cache_step :: "cache \<Rightarrow> externals \<times> string \<Rightarrow> cache" where
  \<comment> \<open>The cache after one call of \<open>get_location_data\<close>.\<close>
  "cache_step cache call = snd (snd (get_location_data (fst call) cache (snd call)))"

definition cache_after :: "(externals \<times> string) list \<Rightarrow> cache" where
  \<comment> \<open>The cache of a process after a sequence of calls, each with the outside world of
      its moment.\<close>
  "cache_after calls = foldl cache_step [] calls"


definition offline_world :: externals where
  \<comment> \<open>An outside world in which the geocoder finds nothing, the completion service is not
      configured, and the astrology library answers every subject with the same chart.\<close>
  "offline_world =
     \<lparr>geocode = (\<lambda>city_name. GeoNone),
      timezone_at = (\<lambda>longitude latitude. Inr None),
      AstrologicalSubject =
        (\<lambda>args. Inr \<lparr>sun = ''Ari'', moon = ''Tau'', first_house = ''Gem'', venus = ''Can'',
                        mars = ''Leo'', jupiter = ''Vir'', saturn = ''Lib''\<rparr>),
      datetime_now = \<lparr>now_year = 2024, now_month = 6, now_day = 1, now_hour = 12, now_minute = 0\<rparr>,
      LLM_AVAILABLE = False,
      groq_client = False,
      create_completion = (\<lambda>system_prompt user_prompt max_tokens. Inl (LibraryError ''no client'')),
      int_error = (\<lambda>v. ValueError ''invalid literal for int()''),
      int_max_str_digits = 4300\<rparr>"

definition cache_sound :: "cache \<Rightarrow> bool" where
  \<comment> \<open>Every entry under a name of the fallback table holds what the body returns for it.\<close>
  "cache_sound cache =
     list_all
       (\<lambda>entry. case map_of FALLBACK_CITIES (strip (lower (fst entry))) of
                  None \<Rightarrow> True
                | Some (t_lat, t_lng, t_tz) \<Rightarrow>
                    snd entry = \<lparr>lat = t_lat, lng = t_lng, tz = t_tz, city = title (fst entry)\<rparr>)
       cache"

fun geo_event :: "event \<Rightarrow> bool" where
  \<comment> \<open>The calls of the geocoding step.\<close>
  "geo_event (Geocode city_name) = True"
| "geo_event (TimezoneAt longitude latitude) = True"
| "geo_event (Subject args) = False"
| "geo_event (Completion sys_text user_text max_tokens) = False"

fun subject_at :: "rat \<Rightarrow> rat \<Rightarrow> string \<Rightarrow> event \<Rightarrow> bool" where
  \<comment> \<open>A call of the astrology library is made with these coordinates and timezone.\<close>
  "subject_at la lo z (Subject args) = (arg_lat args = la \<and> arg_lng args = lo \<and> arg_tz_str args = z)"
| "subject_at la lo z (Geocode city_name) = True"
| "subject_at la lo z (TimezoneAt longitude latitude) = True"
| "subject_at la lo z (Completion sys_text user_text max_tokens) = True"

definition sample_birth :: "(string \<times> json) list" where
  \<comment> \<open>A request body with the five date fields and no city.\<close>
  "sample_birth =
     [(''year'', JInt 1990), (''month'', JStr ''5''), (''day'', JInt 17),
      (''hour'', JInt 8), (''minute'', JInt 30)]"

definition date_keys :: "string list" where
  \<comment> \<open>The required fields, in the order in which the handler converts them.\<close>
  "date_keys = [''year'', ''month'', ''day'', ''hour'', ''minute'']"

fun first_error :: "(exn + 'a) list \<Rightarrow> exn option" where
  "first_error [] = None"
| "first_error (Inl e # rs) = Some e"
| "first_error (Inr x # rs) = first_error rs"

definition first_date_error :: "externals \<Rightarrow> (string \<times> json) list \<Rightarrow> exn option" where
  \<comment> \<open>The exception of the first required field that is missing or that \<open>int()\<close> rejects.\<close>
  "first_date_error ext kvs = first_error (map (int_item ext kvs) date_keys)"

section \<open>Properties of the Section Parser\<close>

lemma get_set_section:
  "get_section (set_section r s v) s' = (if s' = s then v else get_section r s')"
  by (cases s; cases s'; simp)

lemma set_set_section: "set_section (set_section r s a) s b = set_section r s b"
  by (cases s; simp)

lemma set_all_sections: "set all_sections = UNIV"
proof -
  have "k \<in> set all_sections" for k
    by (cases k) (simp_all add: all_sections_def)
  then show ?thesis by auto
qed

lemma find_marker_None: "find_marker line = None \<longleftrightarrow> (\<forall>k. \<not> sublist (marker k) line)"
  by (simp add: find_marker_def find_None_iff set_all_sections)

lemma parse_line_marker:
  "find_marker (strip raw) = Some s \<Longrightarrow> parse_line (cur, res) raw = (Some s, res)"
  by (auto simp: find_marker_def all_sections_def parse_line_def Let_def split: if_splits)

lemma parse_line_content:
  "find_marker (strip raw) = None \<Longrightarrow>
   parse_line (cur, res) raw =
     (case cur of
        None \<Rightarrow> (cur, res)
      | Some sec \<Rightarrow>
          if strip raw = [] then (cur, res)
          else if sec \<in> {Number, Color} then (cur, set_section res sec (clean_line (strip raw)))
          else (cur, set_section res sec (get_section res sec @ clean_line (strip raw) @ '' '')))"
  by (auto simp: find_marker_def all_sections_def parse_line_def Let_def
           split: if_splits option.splits)

lemma block_fold:
  assumes "\<forall>raw \<in> set ls. find_marker (strip raw) = None"
  shows "foldl parse_line (Some sec, res) ls =
     (Some sec,
      if content_lines ls = [] then res
      else if sec \<in> {Number, Color}
           then set_section res sec (clean_line (last (content_lines ls)))
           else set_section res sec
                  (get_section res sec @ concat (map (\<lambda>l. clean_line l @ '' '') (content_lines ls))))"
  using assms
proof (induction ls arbitrary: res)
  case Nil
  then show ?case by (simp add: content_lines_def)
next
  case (Cons raw ls)
  then have nm: "find_marker (strip raw) = None"
    and rest: "\<forall>r \<in> set ls. find_marker (strip r) = None"
    by simp_all
  show ?case
  proof (cases "strip raw = []")
    case True
    then have "parse_line (Some sec, res) raw = (Some sec, res)"
      using nm by (simp add: parse_line_content)
    moreover have "content_lines (raw # ls) = content_lines ls"
      using True by (simp add: content_lines_def)
    ultimately show ?thesis using Cons.IH[OF rest] by simp
  next
    case False
    have cl: "content_lines (raw # ls) = strip raw # content_lines ls"
      using False by (simp add: content_lines_def)
    show ?thesis
    proof (cases "sec \<in> {Number, Color}")
      case True
      then have "parse_line (Some sec, res) raw =
          (Some sec, set_section res sec (clean_line (strip raw)))"
        using nm False by (simp add: parse_line_content)
      then show ?thesis
        using Cons.IH[OF rest, of "set_section res sec (clean_line (strip raw))"] True cl
        by (simp add: set_set_section)
    next
      case appending: False
      then have "parse_line (Some sec, res) raw =
          (Some sec, set_section res sec (get_section res sec @ clean_line (strip raw) @ '' ''))"
        using nm False by (simp add: parse_line_content)
      then show ?thesis
        using Cons.IH[OF rest,
            of "set_section res sec (get_section res sec @ clean_line (strip raw) @ '' '')"]
          appending cl
        by (simp add: set_set_section get_set_section)
    qed
  qed
qed

text \<open>
  C6.  Given no text (\<open>None\<close>), the Section Parser returns the default sections: the five
  narrative fields empty, \<open>number\<close> \<open>"7"\<close> and \<open>color\<close> \<open>"Gold"\<close>.
\<close>

theorem parse_sections_absent:
  "parse_sections None =
     \<lparr>personality = [], love = [], career = [], future = [], life = [],
      number = ''7'', color = ''Gold''\<rparr>"
  by (simp add: parse_sections_def default_results_def)

text \<open>
  C2.  Over a block of lines of which none holds a marker, read with the cursor on a
  section: \<open>number\<close> and \<open>color\<close> end as the cleaned last non-empty line of the block (each
  such line overwrites the one before), every other field gains the cleaned non-empty
  lines in order, each followed by one space.  And the text of the example yields
  \<open>personality = "Hello world. "\<close>, \<open>number = "9"\<close>, \<open>color = "Blue"\<close>.
\<close>

theorem section_fields_rule:
  assumes "\<forall>raw \<in> set ls. find_marker (strip raw) = None"
  shows "foldl parse_line (Some sec, res) ls =
           (Some sec,
            if content_lines ls = [] then res
            else if sec \<in> {Number, Color}
                 then set_section res sec (clean_line (last (content_lines ls)))
                 else set_section res sec
                        (get_section res sec
                         @ concat (map (\<lambda>l. clean_line l @ '' '') (content_lines ls))))
         \<and> parse_sections (Some
              ''SECTION_PERSONALITY:\<newline>Hello world.\<newline>SECTION_LUCKY_NUMBER:\<newline>9\<newline>9\<newline>SECTION_LUCKY_COLOR:\<newline>Blue'')
           = \<lparr>personality = ''Hello world. '', love = [], career = [], future = [], life = [],
              number = ''9'', color = ''Blue''\<rparr>"
proof
  show "foldl parse_line (Some sec, res) ls =
           (Some sec,
            if content_lines ls = [] then res
            else if sec \<in> {Number, Color}
                 then set_section res sec (clean_line (last (content_lines ls)))
                 else set_section res sec
                        (get_section res sec
                         @ concat (map (\<lambda>l. clean_line l @ '' '') (content_lines ls))))"
    using assms by (rule block_fold)
  show "parse_sections (Some
              ''SECTION_PERSONALITY:\<newline>Hello world.\<newline>SECTION_LUCKY_NUMBER:\<newline>9\<newline>9\<newline>SECTION_LUCKY_COLOR:\<newline>Blue'')
           = \<lparr>personality = ''Hello world. '', love = [], career = [], future = [], life = [],
              number = ''9'', color = ''Blue''\<rparr>"
    by code_simp
qed

theorem section_fields_rule_witness:
  "list_all (\<lambda>raw. find_marker (strip raw) = None) [''9'', '' '', '' 9 : '']
   \<and> foldl parse_line (Some Number, default_results) [''9'', '' '', '' 9 : '']
       = (Some Number, default_results\<lparr>number := ''9 ''\<rparr>)
   \<and> list_all (\<lambda>raw. find_marker (strip raw) = None) [''a'', '' '', '' b: '']
   \<and> foldl parse_line (Some Love, default_results) [''a'', '' '', '' b: '']
       = (Some Love, default_results\<lparr>love := ''a b ''\<rparr>)"
proof -
  have l1: "list_all (\<lambda>raw. find_marker (strip raw) = None) [''9'', '' '', '' 9 : '']"
    by code_simp
  have l2: "list_all (\<lambda>raw. find_marker (strip raw) = None) [''a'', '' '', '' b: '']"
    by code_simp
  from l1 have h1: "\<forall>raw \<in> set [''9'', '' '', '' 9 : '']. find_marker (strip raw) = None"
    unfolding list_all_iff .
  from l2 have h2: "\<forall>raw \<in> set [''a'', '' '', '' b: '']. find_marker (strip raw) = None"
    unfolding list_all_iff .
  have c1: "content_lines [''9'', '' '', '' 9 : ''] = [''9'', ''9 :'']"
    by code_simp
  have c2: "content_lines [''a'', '' '', '' b: ''] = [''a'', ''b:'']"
    by code_simp
  have k1: "clean_line ''9 :'' = ''9 ''" by code_simp
  have k2: "clean_line ''a'' = ''a''" by code_simp
  have k3: "clean_line ''b:'' = ''b''" by code_simp
  from section_fields_rule[OF h1, of Number default_results]
  have "foldl parse_line (Some Number, default_results) [''9'', '' '', '' 9 : '']
       = (Some Number, default_results\<lparr>number := ''9 ''\<rparr>)"
    by (simp add: c1 k1)
  moreover from section_fields_rule[OF h2, of Love default_results]
  have "foldl parse_line (Some Love, default_results) [''a'', '' '', '' b: '']
       = (Some Love, default_results\<lparr>love := ''a b ''\<rparr>)"
    by (simp add: c2 k2 k3 default_results_def)
  ultimately show ?thesis using l1 l2 by blast
qed


subsection \<open>Removing the occurrences of a pattern\<close>

















subsection \<open>Marker lines\<close>

text \<open>
  Against C3 as stated, a line with two markers: it contains \<open>SECTION_LOVE:\<close>, and the
  cursor goes to \<open>personality\<close>, whose marker the loop tests first.
\<close>

theorem marker_line_counterexample:
  "sublist (marker Love) (strip ''SECTION_LOVE: SECTION_PERSONALITY:'')
   \<and> parse_line (None, default_results) ''SECTION_LOVE: SECTION_PERSONALITY:''
       = (Some Personality, default_results)"
  by code_simp

text \<open>
  C3 (as amended).  A line whose trimmed form contains at least one of the seven markers,
  anywhere within it, sets the cursor and leaves every field as it was.  The cursor goes
  to the first section, in the order \<open>PERSONALITY\<close>, \<open>LOVE\<close>, \<open>CAREER\<close>, \<open>FUTURE\<close>,
  \<open>LIFE_PATH\<close>, \<open>LUCKY_NUMBER\<close>, \<open>LUCKY_COLOR\<close>, whose marker the line contains; that is
  the section of the marker found when the line contains the marker of one section only.
\<close>

theorem marker_line_sets_cursor:
  assumes "sublist (marker s) (strip raw)"
  shows "\<exists>i < length all_sections.
           sublist (marker (all_sections ! i)) (strip raw)
           \<and> (\<forall>j < i. \<not> sublist (marker (all_sections ! j)) (strip raw))
           \<and> parse_line (cur, res) raw = (Some (all_sections ! i), res)
           \<and> ((\<forall>k. k \<noteq> s \<longrightarrow> \<not> sublist (marker k) (strip raw)) \<longrightarrow> all_sections ! i = s)"
proof -
  from assms have "find_marker (strip raw) \<noteq> None"
    by (auto simp: find_marker_None)
  then obtain s' where s': "find_marker (strip raw) = Some s'" by auto
  then obtain i where i: "i < length all_sections" "sublist (marker (all_sections ! i)) (strip raw)"
      "s' = all_sections ! i" "\<forall>j < i. \<not> sublist (marker (all_sections ! j)) (strip raw)"
    unfolding find_marker_def find_Some_iff by blast
  from s' have "parse_line (cur, res) raw = (Some s', res)" by (rule parse_line_marker)
  with i show ?thesis by blast
qed

theorem marker_line_sets_cursor_witness:
  "sublist (marker Love) (strip ''  my SECTION_LOVE: answer SECTION_LUCKY_COLOR: '')
   \<and> parse_line (Some Career, default_results\<lparr>career := ''x ''\<rparr>) ''  my SECTION_LOVE: answer SECTION_LUCKY_COLOR: ''
       = (Some Love, default_results\<lparr>career := ''x ''\<rparr>)"
proof -
  have h: "sublist (marker Love) (strip ''  my SECTION_LOVE: answer SECTION_LUCKY_COLOR: '')"
    by code_simp
  from marker_line_sets_cursor[OF h, of "Some Career" "default_results\<lparr>career := ''x ''\<rparr>"]
  obtain i where i: "i < length all_sections"
     "\<forall>j < i. \<not> sublist (marker (all_sections ! j)) (strip ''  my SECTION_LOVE: answer SECTION_LUCKY_COLOR: '')"
     "parse_line (Some Career, default_results\<lparr>career := ''x ''\<rparr>) ''  my SECTION_LOVE: answer SECTION_LUCKY_COLOR: '' = (Some (all_sections ! i), default_results\<lparr>career := ''x ''\<rparr>)"
     "sublist (marker (all_sections ! i)) (strip ''  my SECTION_LOVE: answer SECTION_LUCKY_COLOR: '')"
    by blast
  have l1: "all_sections ! 1 = Love" by (simp add: all_sections_def)
  have "\<not> 1 < i"
  proof
    assume "1 < i"
    with i(2) have "\<not> sublist (marker (all_sections ! 1)) (strip ''  my SECTION_LOVE: answer SECTION_LUCKY_COLOR: '')"
      by blast
    with h l1 show False by simp
  qed
  moreover have n0: "\<not> sublist (marker (all_sections ! 0)) (strip ''  my SECTION_LOVE: answer SECTION_LUCKY_COLOR: '')"
    by code_simp
  have "i \<noteq> 0"
  proof
    assume "i = 0"
    with i(4) n0 show False by simp
  qed
  ultimately have "i = 1" by simp
  with i(3) h l1 show ?thesis by simp
qed

subsection \<open>Content lines\<close>






section \<open>Properties of the Location Resolver\<close>

subsection \<open>Letter case\<close>

lemma lower_char_idem: "lower_char (lower_char c) = lower_char c"
  by (auto simp: lower_char_def is_upper_def Let_def)

lemma title_lower_char: "title_char (lower_char c) = title_char c"
  by (auto simp: lower_char_def is_upper_def title_char_def Let_def)

lemma is_cased_lower_char: "is_cased (lower_char c) = is_cased c"
  by (auto simp: lower_char_def is_upper_def is_cased_def Let_def)

lemma is_space_lower_char: "is_space (lower_char c) = is_space c"
  by (auto simp: lower_char_def is_upper_def is_space_def Let_def)

lemma title_from_lower: "title_from b (lower s) = title_from b s"
  by (induction s arbitrary: b)
     (simp_all add: lower_def lower_char_idem title_lower_char is_cased_lower_char)

lemma title_lower: "title (lower s) = title s"
  by (simp add: title_def title_from_lower)

lemma dropWhile_space_lower: "dropWhile is_space (lower s) = lower (dropWhile is_space s)"
  by (induction s) (simp_all add: lower_def is_space_lower_char)

lemma strip_lower: "strip (lower s) = lower (strip s)"
proof -
  have "rev (lower s) = lower (rev s)" for s by (simp add: lower_def rev_map)
  then show ?thesis
    by (simp add: strip_def dropWhile_space_lower)
qed

subsection \<open>The fallback table\<close>

lemma body_fallback:
  "map_of FALLBACK_CITIES (strip (lower city_name)) = Some (t_lat, t_lng, t_tz) \<Longrightarrow>
   get_location_data_body ext city_name =
     (\<lparr>lat = t_lat, lng = t_lng, tz = t_tz, city = title city_name\<rparr>, [])"
  by (simp add: get_location_data_body_def)

lemma cache_sound_Cons:
  "cache_sound (e # c) \<longleftrightarrow>
     (case map_of FALLBACK_CITIES (strip (lower (fst e))) of
        None \<Rightarrow> True
      | Some (t_lat, t_lng, t_tz) \<Rightarrow>
          snd e = \<lparr>lat = t_lat, lng = t_lng, tz = t_tz, city = title (fst e)\<rparr>) \<and> cache_sound c"
  by (simp add: cache_sound_def)

lemma cache_sound_filter: "cache_sound c \<Longrightarrow> cache_sound (filter P c)"
  by (simp add: cache_sound_def list_all_iff)

lemma cache_sound_butlast: "cache_sound c \<Longrightarrow> cache_sound (butlast c)"
  by (auto simp: cache_sound_def list_all_iff dest: in_set_butlastD)

lemma cache_sound_lookup:
  assumes "cache_sound c" "map_of c k = Some v"
    "map_of FALLBACK_CITIES (strip (lower k)) = Some (t_lat, t_lng, t_tz)"
  shows "v = \<lparr>lat = t_lat, lng = t_lng, tz = t_tz, city = title k\<rparr>"
proof -
  from assms(2) have "(k, v) \<in> set c" by (rule map_of_SomeD)
  with assms(1) assms(3) show ?thesis
    by (auto simp: cache_sound_def list_all_iff)
qed

lemma cache_sound_step:
  assumes "cache_sound c"
  shows "cache_sound (cache_step c call)"
proof (cases "map_of c (snd call)")
  case None
  obtain r evs where b: "get_location_data_body (fst call) (snd call) = (r, evs)"
    by (cases "get_location_data_body (fst call) (snd call)")
  have new: "case map_of FALLBACK_CITIES (strip (lower (snd call))) of
        None \<Rightarrow> True
      | Some (t_lat, t_lng, t_tz) \<Rightarrow>
          r = \<lparr>lat = t_lat, lng = t_lng, tz = t_tz, city = title (snd call)\<rparr>"
    using b by (auto split: option.splits simp: body_fallback)
  show ?thesis
    using None b new assms
    by (auto simp: cache_step_def get_location_data_def cache_sound_Cons cache_sound_butlast
             split: option.splits)
next
  case (Some v)
  have "case map_of FALLBACK_CITIES (strip (lower (snd call))) of
        None \<Rightarrow> True
      | Some (t_lat, t_lng, t_tz) \<Rightarrow>
          v = \<lparr>lat = t_lat, lng = t_lng, tz = t_tz, city = title (snd call)\<rparr>"
    using cache_sound_lookup[OF assms Some] by (auto split: option.splits)
  then show ?thesis
    using Some assms
    by (auto simp: cache_step_def get_location_data_def cache_sound_Cons cache_sound_filter
             split: option.splits)
qed

lemma cache_after_snoc: "cache_after (calls @ [call]) = cache_step (cache_after calls) call"
  by (simp add: cache_after_def)

lemma cache_sound_after: "cache_sound (cache_after calls)"
proof (induction calls rule: rev_induct)
  case Nil
  show ?case by (simp add: cache_after_def cache_sound_def)
next
  case (snoc call calls)
  then show ?case by (simp add: cache_after_snoc cache_sound_step)
qed

lemma resolve_fallback:
  assumes "cache_sound c"
    and "map_of FALLBACK_CITIES (strip (lower city_name)) = Some (t_lat, t_lng, t_tz)"
  shows "fst (get_location_data ext c city_name) =
           \<lparr>lat = t_lat, lng = t_lng, tz = t_tz, city = title city_name\<rparr>"
    and "fst (snd (get_location_data ext c city_name)) = []"
proof -
  show "fst (get_location_data ext c city_name) =
           \<lparr>lat = t_lat, lng = t_lng, tz = t_tz, city = title city_name\<rparr>"
  proof (cases "map_of c city_name")
    case None
    then show ?thesis using assms(2) by (simp add: get_location_data_def body_fallback)
  next
    case (Some v)
    with cache_sound_lookup[OF assms(1) Some assms(2)] show ?thesis
      by (simp add: get_location_data_def)
  qed
  show "fst (snd (get_location_data ext c city_name)) = []"
    using assms(2) by (cases "map_of c city_name") (simp_all add: get_location_data_def body_fallback)
qed

text \<open>
  Against C4 as stated: for the input \<open>" delhi"\<close>, which matches the key \<open>delhi\<close>, the city
  field is \<open>" Delhi"\<close>, the title-cased input with its blank, and not \<open>"Delhi"\<close>, the
  title-cased key.
\<close>

theorem fallback_city_counterexample:
  "map_of FALLBACK_CITIES (strip (lower '' delhi'')) = Some (28.6139, 77.2090, ''Asia/Kolkata'')
   \<and> city (fst (get_location_data offline_world [] '' delhi'')) = '' Delhi''
   \<and> title ''delhi'' = ''Delhi''"
proof -
  have k: "strip (lower '' delhi'') = ''delhi''" by code_simp
  have t: "title '' delhi'' = '' Delhi''" "title ''delhi'' = ''Delhi''" by code_simp+
  show ?thesis
    by (simp add: k t get_location_data_def get_location_data_body_def FALLBACK_CITIES_def)
qed

text \<open>
  C4 (as amended).  When the lowercase-trimmed input matches a key of the fallback table,
  the resolver returns that entry's coordinates and timezone and makes no call to the
  outside, whatever calls went before; the city field is the title-cased input string as
  it was given, untrimmed.  That is the title-cased key when the input has no whitespace
  at either end.
\<close>

theorem fallback_city:
  assumes "map_of FALLBACK_CITIES (strip (lower city_name)) = Some (t_lat, t_lng, t_tz)"
  shows "fst (get_location_data ext (cache_after calls) city_name) =
           \<lparr>lat = t_lat, lng = t_lng, tz = t_tz, city = title city_name\<rparr>
       \<and> fst (snd (get_location_data ext (cache_after calls) city_name)) = []
       \<and> (strip city_name = city_name \<longrightarrow> title city_name = title (strip (lower city_name)))"
  using resolve_fallback[OF cache_sound_after assms, of ext calls]
  by (simp add: strip_lower title_lower)

theorem fallback_city_witness:
  "map_of FALLBACK_CITIES (strip (lower '' LONDON '')) = Some (51.5074, - 0.1278, ''Europe/London'')
   \<and> get_location_data offline_world [] '' LONDON ''
       = (\<lparr>lat = 51.5074, lng = - 0.1278, tz = ''Europe/London'', city = '' London ''\<rparr>, [],
          [('' LONDON '', \<lparr>lat = 51.5074, lng = - 0.1278, tz = ''Europe/London'', city = '' London ''\<rparr>)])
   \<and> fst (get_location_data offline_world (cache_after [(offline_world, ''Paris'')]) ''New York'')
       = \<lparr>lat = 40.7128, lng = - 74.0060, tz = ''America/New_York'', city = ''New York''\<rparr>"
proof -
  have k: "strip (lower '' LONDON '') = ''london''" by code_simp
  have h: "map_of FALLBACK_CITIES (strip (lower '' LONDON '')) = Some (51.5074, - 0.1278, ''Europe/London'')"
    by (simp add: k FALLBACK_CITIES_def)
  have t: "title '' LONDON '' = '' London ''" by code_simp
  have e: "cache_after [] = []" by (simp add: cache_after_def)
  have k2: "strip (lower ''New York'') = ''new york''" by code_simp
  have h2: "map_of FALLBACK_CITIES (strip (lower ''New York'')) = Some (40.7128, - 74.0060, ''America/New_York'')"
    by (simp add: k2 FALLBACK_CITIES_def)
  have t2: "title ''New York'' = ''New York''" by code_simp
  from fallback_city[OF h, of offline_world "[]"]
  have "get_location_data offline_world [] '' LONDON ''
       = (\<lparr>lat = 51.5074, lng = - 0.1278, tz = ''Europe/London'', city = '' London ''\<rparr>, [],
          [('' LONDON '', \<lparr>lat = 51.5074, lng = - 0.1278, tz = ''Europe/London'', city = '' London ''\<rparr>)])"
    by (simp add: e t get_location_data_def maxsize_def split: prod.splits)
  moreover from fallback_city[OF h2, of offline_world "[(offline_world, ''Paris'')]"]
  have "fst (get_location_data offline_world (cache_after [(offline_world, ''Paris'')]) ''New York'')
       = \<lparr>lat = 40.7128, lng = - 74.0060, tz = ''America/New_York'', city = ''New York''\<rparr>"
    by (simp add: t2)
  ultimately show ?thesis using h by blast
qed


subsection \<open>The default record\<close>

lemma body_default:
  assumes "map_of FALLBACK_CITIES (strip (lower city_name)) = None"
    and "geocode ext city_name = GeoNone
         \<or> (\<exists>e. geocode ext city_name = GeoRaises e)
         \<or> (\<exists>la lo a e. geocode ext city_name = GeoLocation la lo a \<and> timezone_at ext lo la = Inl e)"
  shows "fst (get_location_data_body ext city_name) = default_location"
  using assms by (auto simp: get_location_data_body_def)

text \<open>
  C5.  For a string that is not in the fallback table and not in the cache, when the
  geocoder raises or finds nothing, or the timezone lookup that follows raises, the resolver
  returns the default record: New York's coordinates \<open>40.7128\<close> and \<open>-74.0060\<close>, timezone
  \<open>America/New_York\<close>, city \<open>New York\<close>.  And a call with a string never raises: it
  returns a record, whatever the cache and the outside world.
\<close>

theorem geocoding_failure_default:
  "(map_of FALLBACK_CITIES (strip (lower city_name)) = None
      \<and> map_of cache city_name = None
      \<and> (geocode ext city_name = GeoNone
           \<or> (\<exists>e. geocode ext city_name = GeoRaises e)
           \<or> (\<exists>la lo a e. geocode ext city_name = GeoLocation la lo a
                              \<and> timezone_at ext lo la = Inl e))
    \<longrightarrow> fst (get_location_data ext cache city_name)
          = \<lparr>lat = 40.7128, lng = - 74.0060, tz = ''America/New_York'', city = ''New York''\<rparr>)
   \<and> (\<exists>result evs cache'.
          call_get_location_data ext cache (JStr city_name) = (Inr result, evs, cache'))"
proof (intro conjI impI)
  assume a: "map_of FALLBACK_CITIES (strip (lower city_name)) = None
      \<and> map_of cache city_name = None
      \<and> (geocode ext city_name = GeoNone
           \<or> (\<exists>e. geocode ext city_name = GeoRaises e)
           \<or> (\<exists>la lo a e. geocode ext city_name = GeoLocation la lo a
                              \<and> timezone_at ext lo la = Inl e))"
  then have "fst (get_location_data_body ext city_name) = default_location"
    by (intro body_default) auto
  with a show "fst (get_location_data ext cache city_name)
          = \<lparr>lat = 40.7128, lng = - 74.0060, tz = ''America/New_York'', city = ''New York''\<rparr>"
    by (auto simp: get_location_data_def default_location_def split: prod.splits)
next
  show "\<exists>result evs cache'.
          call_get_location_data ext cache (JStr city_name) = (Inr result, evs, cache')"
    by (cases "get_location_data ext cache city_name") (simp add: call_get_location_data_def)
qed

theorem geocoding_failure_default_witness:
  "map_of FALLBACK_CITIES (strip (lower ''Atlantis'')) = None
   \<and> geocode offline_world ''Atlantis'' = GeoNone
   \<and> get_location_data offline_world [] ''Atlantis''
       = (\<lparr>lat = 40.7128, lng = - 74.0060, tz = ''America/New_York'', city = ''New York''\<rparr>,
          [Geocode ''Atlantis''],
          [(''Atlantis'', \<lparr>lat = 40.7128, lng = - 74.0060, tz = ''America/New_York'', city = ''New York''\<rparr>)])
   \<and> geocode (offline_world\<lparr>geocode := \<lambda>q. GeoRaises (LibraryError ''timed out'')\<rparr>) ''Atlantis''
       = GeoRaises (LibraryError ''timed out'')
   \<and> fst (get_location_data (offline_world\<lparr>geocode := \<lambda>q. GeoRaises (LibraryError ''timed out'')\<rparr>) [] ''Atlantis'')
       = \<lparr>lat = 40.7128, lng = - 74.0060, tz = ''America/New_York'', city = ''New York''\<rparr>"
proof -
  have k: "strip (lower ''Atlantis'') = ''atlantis''" by code_simp
  have h: "map_of FALLBACK_CITIES (strip (lower ''Atlantis'')) = None"
    by (simp add: k FALLBACK_CITIES_def)
  have g: "geocode offline_world ''Atlantis'' = GeoNone"
    by (simp add: offline_world_def)
  have g2: "geocode (offline_world\<lparr>geocode := \<lambda>q. GeoRaises (LibraryError ''timed out'')\<rparr>) ''Atlantis''
       = GeoRaises (LibraryError ''timed out'')"
    by simp
  from geocoding_failure_default[of "''Atlantis''" "[]" offline_world] h g
  have "fst (get_location_data offline_world [] ''Atlantis'')
          = \<lparr>lat = 40.7128, lng = - 74.0060, tz = ''America/New_York'', city = ''New York''\<rparr>"
    by simp
  then have "get_location_data offline_world [] ''Atlantis''
       = (\<lparr>lat = 40.7128, lng = - 74.0060, tz = ''America/New_York'', city = ''New York''\<rparr>,
          [Geocode ''Atlantis''],
          [(''Atlantis'', \<lparr>lat = 40.7128, lng = - 74.0060, tz = ''America/New_York'', city = ''New York''\<rparr>)])"
    using h g
    by (simp add: get_location_data_def get_location_data_body_def maxsize_def split: prod.splits)
  moreover from geocoding_failure_default[of "''Atlantis''" "[]"
      "offline_world\<lparr>geocode := \<lambda>q. GeoRaises (LibraryError ''timed out'')\<rparr>"] h g2
  have "fst (get_location_data (offline_world\<lparr>geocode := \<lambda>q. GeoRaises (LibraryError ''timed out'')\<rparr>) [] ''Atlantis'')
       = \<lparr>lat = 40.7128, lng = - 74.0060, tz = ''America/New_York'', city = ''New York''\<rparr>"
    by simp
  ultimately show ?thesis using h g g2 by blast
qed


section \<open>Properties of the Request Handler\<close>

lemma call_llm_events: "call_llm ext sp up n = (a, evs) \<Longrightarrow>
  \<not> list_ex geo_event evs \<and> list_all (subject_at la lo z) evs"
  by (auto simp: call_llm_def split: if_splits sum.splits)

lemma user_subject_args_location:
  "user_subject_args ext kvs loc = Inr args \<Longrightarrow>
   arg_lat args = lat loc \<and> arg_lng args = lng loc \<and> arg_tz_str args = tz loc"
  by (auto simp: user_subject_args_def Let_def split: sum.splits)

lemma chart_events:
  assumes "chart_and_analysis ext kvs loc = (r, evs)"
  shows "\<not> list_ex geo_event evs \<and> list_all (subject_at (lat loc) (lng loc) (tz loc)) evs"
proof (cases "user_subject_args ext kvs loc")
  case (Inl e)
  with assms show ?thesis by (simp add: chart_and_analysis_def)
next
  case (Inr user_args)
  note ua = user_subject_args_location[OF Inr]
  show ?thesis
  proof (cases "AstrologicalSubject ext user_args")
    case (Inl e)
    with assms Inr ua show ?thesis by (auto simp: chart_and_analysis_def)
  next
    case user: (Inr user)
    show ?thesis
    proof (cases "AstrologicalSubject ext (sky_now_args (datetime_now ext) loc)")
      case (Inl e)
      with assms Inr user ua show ?thesis
        by (auto simp: chart_and_analysis_def Let_def sky_now_args_def)
    next
      case sky: (Inr sky_now)
      obtain a evs' where c: "call_llm ext system_prompt (prompt user sky_now) 2500 = (a, evs')"
        by (cases "call_llm ext system_prompt (prompt user sky_now) 2500")
      from call_llm_events[OF c, of "lat loc" "lng loc" "tz loc"]
      show ?thesis using assms Inr user sky ua c
        by (auto simp: chart_and_analysis_def Let_def sky_now_args_def)
    qed
  qed
qed


subsection \<open>The default city\<close>

lemma get_location_data_caches:
  "get_location_data ext c k = (r, evs, c') \<Longrightarrow> map_of c' k = Some r"
  by (auto simp: get_location_data_def split: option.splits prod.splits)

lemma new_york_key:
  "map_of FALLBACK_CITIES (strip (lower ''New York'')) = Some (40.7128, - 74.0060, ''America/New_York'')"
proof -
  have "strip (lower ''New York'') = ''new york''" by code_simp
  then show ?thesis by (simp add: FALLBACK_CITIES_def)
qed

lemma new_york_title: "title ''New York'' = ''New York''"
  by code_simp

text \<open>
  C10.  A request whose body has no \<open>city\<close> resolves the location of the literal string
  \<open>New York\<close>, which is a name of the fallback table: the handler makes no call of the
  geocoding step, every call of the astrology library is made with New York's coordinates
  \<open>40.7128\<close>, \<open>-74.0060\<close> and the timezone \<open>America/New_York\<close>, and that record is the
  cache's entry for \<open>New York\<close> afterwards.
\<close>

theorem request_without_city:
  assumes "map_of kvs ''city'' = None"
  shows "case generate_chart ext (cache_after calls) (Inr (JObj kvs)) of
           (response, evs, cache') \<Rightarrow>
             \<not> list_ex geo_event evs
             \<and> list_all (subject_at 40.7128 (- 74.0060) ''America/New_York'') evs
             \<and> map_of cache' ''New York''
                 = Some \<lparr>lat = 40.7128, lng = - 74.0060, tz = ''America/New_York'', city = ''New York''\<rparr>"
proof -
  let ?ny = "\<lparr>lat = 40.7128, lng = - 74.0060, tz = ''America/New_York'', city = ''New York''\<rparr>"
  obtain r evs c' where g: "get_location_data ext (cache_after calls) ''New York'' = (r, evs, c')"
    by (cases "get_location_data ext (cache_after calls) ''New York''")
  from resolve_fallback[OF cache_sound_after new_york_key, of ext calls] g
  have r: "r = ?ny" and evs: "evs = []"
    by (simp_all add: new_york_title)
  from get_location_data_caches[OF g] r have c': "map_of c' ''New York'' = Some ?ny"
    by simp
  obtain res evs' where ch: "chart_and_analysis ext kvs ?ny = (res, evs')"
    by (cases "chart_and_analysis ext kvs ?ny")
  from chart_events[OF ch]
  have e': "\<not> list_ex geo_event evs'"
    "list_all (subject_at 40.7128 (- 74.0060) ''America/New_York'') evs'"
    by simp_all
  have "generate_chart_try ext (cache_after calls) (Inr (JObj kvs)) = (res, evs', c')"
    using assms g r evs ch
    by (simp add: generate_chart_try_def call_get_location_data_def)
  then show ?thesis using e' c'
    by (cases res) (simp_all add: generate_chart_def)
qed

theorem request_without_city_witness:
  "map_of sample_birth ''city'' = None
   \<and> \<not> list_ex geo_event (fst (snd (generate_chart offline_world (cache_after []) (Inr (JObj sample_birth)))))
   \<and> list_all (subject_at 40.7128 (- 74.0060) ''America/New_York'')
        (fst (snd (generate_chart offline_world (cache_after []) (Inr (JObj sample_birth)))))
   \<and> fst (snd (generate_chart offline_world (cache_after []) (Inr (JObj sample_birth))))
       = [Subject \<lparr>arg_name = JStr ''User'', arg_year = 1990, arg_month = 5, arg_day = 17,
                   arg_hour = 8, arg_minute = 30, arg_city = Some ''New York'',
                   arg_lat = 40.7128, arg_lng = - 74.0060, arg_tz_str = ''America/New_York''\<rparr>,
          Subject \<lparr>arg_name = JStr ''Now'', arg_year = 2024, arg_month = 6, arg_day = 1,
                   arg_hour = 12, arg_minute = 0, arg_city = None,
                   arg_lat = 40.7128, arg_lng = - 74.0060, arg_tz_str = ''America/New_York''\<rparr>]"
proof -
  have h: "map_of sample_birth ''city'' = None"
    by (simp add: sample_birth_def)
  have e: "cache_after [] = []"
    by (simp add: cache_after_def)
  have v: "fst (snd (generate_chart offline_world [] (Inr (JObj sample_birth))))
       = [Subject \<lparr>arg_name = JStr ''User'', arg_year = 1990, arg_month = 5, arg_day = 17,
                   arg_hour = 8, arg_minute = 30, arg_city = Some ''New York'',
                   arg_lat = 40.7128, arg_lng = - 74.0060, arg_tz_str = ''America/New_York''\<rparr>,
          Subject \<lparr>arg_name = JStr ''Now'', arg_year = 2024, arg_month = 6, arg_day = 1,
                   arg_hour = 12, arg_minute = 0, arg_city = None,
                   arg_lat = 40.7128, arg_lng = - 74.0060, arg_tz_str = ''America/New_York''\<rparr>]"
    by code_simp
  from request_without_city[OF h, of offline_world "[]"]
  have "\<not> list_ex geo_event (fst (snd (generate_chart offline_world (cache_after []) (Inr (JObj sample_birth)))))
     \<and> list_all (subject_at 40.7128 (- 74.0060) ''America/New_York'')
        (fst (snd (generate_chart offline_world (cache_after []) (Inr (JObj sample_birth)))))"
    by (simp split: prod.splits)
  then show ?thesis using h v e by simp
qed

subsection \<open>Failures\<close>

lemma user_subject_args_fails:
  assumes "k \<in> set [''year'', ''month'', ''day'', ''hour'', ''minute'']"
    and "int_item ext kvs k = Inl e'"
  shows "\<exists>e. user_subject_args ext kvs loc = Inl e"
  using assms by (auto simp: user_subject_args_def Let_def split: sum.splits)

lemma try_date_error:
  assumes "k \<in> set [''year'', ''month'', ''day'', ''hour'', ''minute'']"
    and "int_item ext kvs k = Inl e'"
  shows "\<exists>e. fst (generate_chart_try ext cache (Inr (JObj kvs))) = Inl e"
proof -
  let ?v = "case map_of kvs ''city'' of None \<Rightarrow> JStr ''New York'' | Some v \<Rightarrow> v"
  obtain r evs c' where g: "call_get_location_data ext cache ?v = (r, evs, c')"
    by (cases "call_get_location_data ext cache ?v")
  show ?thesis
  proof (cases r)
    case (Inl e)
    with g show ?thesis by (simp add: generate_chart_try_def)
  next
    case (Inr loc)
    from user_subject_args_fails[OF assms, of loc]
    obtain e where "user_subject_args ext kvs loc = Inl e" by blast
    then have "chart_and_analysis ext kvs loc = (Inl e, [])"
      by (simp add: chart_and_analysis_def)
    with g Inr show ?thesis by (simp add: generate_chart_try_def)
  qed
qed

lemma user_subject_args_first_error:
  "first_date_error ext kvs = Some e \<Longrightarrow> user_subject_args ext kvs loc = Inl e"
  by (auto simp: first_date_error_def date_keys_def user_subject_args_def Let_def
      split: sum.splits)

lemma user_subject_args_no_error:
  "first_date_error ext kvs = None \<Longrightarrow> \<exists>user_args. user_subject_args ext kvs loc = Inr user_args"
  by (auto simp: first_date_error_def date_keys_def user_subject_args_def Let_def
      split: sum.splits)

lemma non_string_city_raises:
  "\<forall>s. v \<noteq> JStr s \<Longrightarrow> \<exists>e. call_get_location_data ext cache v = (Inl e, [], cache)"
  by (cases v) (simp_all add: call_get_location_data_def)

lemma try_located:
  assumes "fst (call_get_location_data ext cache
             (case map_of kvs ''city'' of None \<Rightarrow> JStr ''New York'' | Some v \<Rightarrow> v)) = r"
  shows "fst (generate_chart_try ext cache (Inr (JObj kvs))) =
           (case r of Inl e \<Rightarrow> Inl e | Inr loc \<Rightarrow> fst (chart_and_analysis ext kvs loc))"
proof -
  let ?v = "case map_of kvs ''city'' of None \<Rightarrow> JStr ''New York'' | Some v \<Rightarrow> v"
  obtain r' evs c' where g: "call_get_location_data ext cache ?v = (r', evs, c')"
    by (cases "call_get_location_data ext cache ?v")
  with assms have "r' = r" by simp
  with g show ?thesis
    by (cases r) (simp_all add: generate_chart_try_def split: prod.splits)
qed

lemma response_of_try:
  "fst (generate_chart ext cache request_json) =
     (case fst (generate_chart_try ext cache request_json) of
        Inr body \<Rightarrow> (200, body)
      | Inl e \<Rightarrow> (500, error_body e))"
proof -
  obtain r evs c' where t: "generate_chart_try ext cache request_json = (r, evs, c')"
    by (cases "generate_chart_try ext cache request_json")
  then show ?thesis by (cases r) (simp_all add: generate_chart_def)
qed

lemma fst_chart_and_analysis:
  "fst (chart_and_analysis ext kvs loc) =
     (case user_subject_args ext kvs loc of
        Inl e \<Rightarrow> Inl e
      | Inr user_args \<Rightarrow>
          (case AstrologicalSubject ext user_args of
             Inl e \<Rightarrow> Inl e
           | Inr user \<Rightarrow>
               (case AstrologicalSubject ext (sky_now_args (datetime_now ext) loc) of
                  Inl e \<Rightarrow> Inl e
                | Inr sky_now \<Rightarrow>
                    Inr (success_body user
                          (parse_sections
                            (fst (call_llm ext system_prompt (prompt user sky_now) 2500)))))))"
  by (simp add: chart_and_analysis_def Let_def split: sum.splits prod.splits)

text \<open>
  C8.  Every exception of the handler's \<open>try\<close> block ends in status 500 with the body
  \<open>{success: false, error: str(e)}\<close> and nothing else, \<open>e\<close> being the exception raised:
  that of \<open>request.json\<close>; the \<open>AttributeError\<close> of a body that is no object; that of
  the location lookup, raised for every city that is no string; that of the first date
  field, in the order year, month, day, hour, minute, which is missing or which \<open>int()\<close>
  rejects; that of the astrology library, for the user's subject or for the current one.
  When none of them is raised the status is 200, with the chart and the parsed sections;
  the status is 200 in no other case.
\<close>

theorem failure_response:
  "(fst (generate_chart_try ext cache request_json) = Inl e \<longrightarrow>
      fst (generate_chart ext cache request_json)
        = (500, JObj [(''success'', JBool False), (''error'', JStr (str_exn e))]))
   \<and> (\<forall>kvs k e'.
         request_json = Inr (JObj kvs)
         \<and> k \<in> set [''year'', ''month'', ''day'', ''hour'', ''minute'']
         \<and> int_item ext kvs k = Inl e' \<longrightarrow>
         (\<exists>e. fst (generate_chart ext cache request_json)
                = (500, JObj [(''success'', JBool False), (''error'', JStr (str_exn e))])))
   \<and> (fst (fst (generate_chart ext cache request_json)) = 200
        \<longleftrightarrow> (\<exists>body. fst (generate_chart_try ext cache request_json) = Inr body))
   \<and> error_body e = JObj [(''success'', JBool False), (''error'', JStr (str_exn e))]
   \<and> (request_json = Inl e \<longrightarrow>
        fst (generate_chart ext cache request_json) = (500, error_body e))
   \<and> (request_json = Inr data \<and> (\<forall>kvs. data \<noteq> JObj kvs) \<longrightarrow>
        fst (generate_chart ext cache request_json) = (500, error_body (no_attribute data ''get'')))
   \<and> ((\<forall>s. v \<noteq> JStr s) \<longrightarrow> (\<exists>e'. call_get_location_data ext cache v = (Inl e', [], cache)))
   \<and> (request_json = Inr (JObj kvs) \<longrightarrow>
        (fst (call_get_location_data ext cache
               (case map_of kvs ''city'' of None \<Rightarrow> JStr ''New York'' | Some v \<Rightarrow> v)) = Inl e \<longrightarrow>
           fst (generate_chart ext cache request_json) = (500, error_body e))
        \<and> (fst (call_get_location_data ext cache
                  (case map_of kvs ''city'' of None \<Rightarrow> JStr ''New York'' | Some v \<Rightarrow> v)) = Inr loc \<longrightarrow>
             (first_date_error ext kvs = Some e \<longrightarrow>
                fst (generate_chart ext cache request_json) = (500, error_body e))
             \<and> (first_date_error ext kvs = None \<longrightarrow>
                  (\<exists>args. user_subject_args ext kvs loc = Inr args))
             \<and> (user_subject_args ext kvs loc = Inr user_args \<longrightarrow>
                  (AstrologicalSubject ext user_args = Inl e \<longrightarrow>
                     fst (generate_chart ext cache request_json) = (500, error_body e))
                  \<and> (AstrologicalSubject ext user_args = Inr user \<longrightarrow>
                       (AstrologicalSubject ext (sky_now_args (datetime_now ext) loc) = Inl e \<longrightarrow>
                          fst (generate_chart ext cache request_json) = (500, error_body e))
                       \<and> (AstrologicalSubject ext (sky_now_args (datetime_now ext) loc) = Inr sky_now \<longrightarrow>
                            fst (generate_chart ext cache request_json)
                              = (200, success_body user
                                        (parse_sections
                                          (fst (call_llm ext system_prompt
                                                  (prompt user sky_now) 2500)))))))))"
proof -
  let ?R = "fst (generate_chart ext cache request_json)"
  let ?city = "case map_of kvs ''city'' of None \<Rightarrow> JStr ''New York'' | Some v \<Rightarrow> v"
  note resp = response_of_try[of ext cache request_json]
  have eb: "error_body e = JObj [(''success'', JBool False), (''error'', JStr (str_exn e))]" for e
    by (simp add: error_body_def)
  have 1: "fst (generate_chart_try ext cache request_json) = Inl e \<longrightarrow>
      ?R = (500, JObj [(''success'', JBool False), (''error'', JStr (str_exn e))])"
    using resp by (simp add: eb)
  have 2: "\<exists>e. ?R = (500, JObj [(''success'', JBool False), (''error'', JStr (str_exn e))])"
    if "request_json = Inr (JObj kvs)" "k \<in> set [''year'', ''month'', ''day'', ''hour'', ''minute'']"
      "int_item ext kvs k = Inl e'" for kvs k e'
  proof -
    from try_date_error[OF that(2,3), of cache] that(1)
    obtain e0 where "fst (generate_chart_try ext cache request_json) = Inl e0" by auto
    with resp show ?thesis by (auto simp: eb)
  qed
  have 3: "fst ?R = 200
        \<longleftrightarrow> (\<exists>body. fst (generate_chart_try ext cache request_json) = Inr body)"
    using resp by (cases "fst (generate_chart_try ext cache request_json)") simp_all
  have 4: "request_json = Inl e \<longrightarrow> ?R = (500, error_body e)"
    using resp by (auto simp: generate_chart_try_def)
  have 5: "request_json = Inr data \<and> (\<forall>kvs. data \<noteq> JObj kvs) \<longrightarrow>
        ?R = (500, error_body (no_attribute data ''get''))"
    using resp by (cases data) (auto simp: generate_chart_try_def)
  have 6: "(\<forall>s. v \<noteq> JStr s) \<longrightarrow> (\<exists>e'. call_get_location_data ext cache v = (Inl e', [], cache))"
    using non_string_city_raises[of v ext cache] by blast
  have 7: "?R = (500, error_body e)"
    if "request_json = Inr (JObj kvs)" "fst (call_get_location_data ext cache ?city) = Inl e"
    using resp try_located[OF that(2)] that(1) by simp
  have located: "?R = (case fst (chart_and_analysis ext kvs loc) of
                        Inr body \<Rightarrow> (200, body) | Inl e \<Rightarrow> (500, error_body e))"
    if "request_json = Inr (JObj kvs)" "fst (call_get_location_data ext cache ?city) = Inr loc"
    using resp try_located[OF that(2)] that(1) by simp
  have 8: "?R = (500, error_body e)"
    if "request_json = Inr (JObj kvs)" "fst (call_get_location_data ext cache ?city) = Inr loc"
      "first_date_error ext kvs = Some e"
    using located[OF that(1,2)] user_subject_args_first_error[OF that(3), of loc]
    by (simp add: fst_chart_and_analysis)
  have 9: "first_date_error ext kvs = None \<longrightarrow> (\<exists>args. user_subject_args ext kvs loc = Inr args)"
    using user_subject_args_no_error[of ext kvs loc] by blast
  have 10: "?R = (500, error_body e)"
    if "request_json = Inr (JObj kvs)" "fst (call_get_location_data ext cache ?city) = Inr loc"
      "user_subject_args ext kvs loc = Inr user_args" "AstrologicalSubject ext user_args = Inl e"
    using located[OF that(1,2)] that(3,4) by (simp add: fst_chart_and_analysis)
  have 11: "?R = (500, error_body e)"
    if "request_json = Inr (JObj kvs)" "fst (call_get_location_data ext cache ?city) = Inr loc"
      "user_subject_args ext kvs loc = Inr user_args" "AstrologicalSubject ext user_args = Inr user"
      "AstrologicalSubject ext (sky_now_args (datetime_now ext) loc) = Inl e"
    using located[OF that(1,2)] that(3,4,5) by (simp add: fst_chart_and_analysis)
  have 12: "?R = (200, success_body user
                        (parse_sections (fst (call_llm ext system_prompt (prompt user sky_now) 2500))))"
    if "request_json = Inr (JObj kvs)" "fst (call_get_location_data ext cache ?city) = Inr loc"
      "user_subject_args ext kvs loc = Inr user_args" "AstrologicalSubject ext user_args = Inr user"
      "AstrologicalSubject ext (sky_now_args (datetime_now ext) loc) = Inr sky_now"
    using located[OF that(1,2)] that(3,4,5) by (simp add: fst_chart_and_analysis)
  show ?thesis
    apply (intro conjI impI allI)
    subgoal using 1 by simp
    subgoal for kvs k e' using 2[of kvs k e'] by simp
    subgoal by (rule 3)
    subgoal by (rule eb)
    subgoal using 4 by simp
    subgoal using 5 by simp
    subgoal using 6 by simp
    subgoal by (rule 7; assumption)
    subgoal by (rule 8; assumption)
    subgoal using 9 by simp
    subgoal by (rule 10; assumption)
    subgoal by (rule 11; assumption)
    subgoal by (rule 12; assumption)
    done
qed

theorem failure_response_witness:
  "first_date_error offline_world (tl sample_birth) = Some (KeyError ''year'')
   \<and> fst (generate_chart offline_world [] (Inr (JObj (tl sample_birth))))
       = (500, JObj [(''success'', JBool False), (''error'', JStr (squote @ ''year'' @ squote))])
   \<and> first_date_error offline_world
         [(''year'', JInt 1990), (''month'', JStr ''5''), (''day'', JInt 17),
          (''hour'', JInt 8), (''minute'', JStr ''half'')]
       = Some (ValueError ''invalid literal for int()'')
   \<and> fst (generate_chart offline_world []
             (Inr (JObj [(''year'', JInt 1990), (''month'', JStr ''5''), (''day'', JInt 17),
                         (''hour'', JInt 8), (''minute'', JStr ''half'')])))
       = (500, JObj [(''success'', JBool False), (''error'', JStr ''invalid literal for int()'')])
   \<and> fst (generate_chart
             (offline_world\<lparr>AstrologicalSubject := \<lambda>args. Inl (LibraryError ''no such date'')\<rparr>)
             [] (Inr (JObj sample_birth)))
       = (500, JObj [(''success'', JBool False), (''error'', JStr ''no such date'')])
   \<and> fst (generate_chart offline_world [] (Inl (RequestError ''400 Bad Request'')))
       = (500, JObj [(''success'', JBool False), (''error'', JStr ''400 Bad Request'')])
   \<and> fst (generate_chart offline_world [] (Inr (JArr [])))
       = (500, JObj [(''success'', JBool False),
                     (''error'', JStr (squote @ ''list'' @ squote @ '' object has no attribute ''
                                       @ squote @ ''get'' @ squote))])"
proof -
  let ?ny = "\<lparr>lat = 40.7128, lng = - 74.0060, tz = ''America/New_York'', city = ''New York''\<rparr>"
  let ?bad = "[(''year'', JInt 1990), (''month'', JStr ''5''), (''day'', JInt 17),
               (''hour'', JInt 8), (''minute'', JStr ''half'')]"
  let ?w = "offline_world\<lparr>AstrologicalSubject := \<lambda>args. Inl (LibraryError ''no such date'')\<rparr>"
  let ?args = "\<lparr>arg_name = JStr ''User'', arg_year = 1990, arg_month = 5, arg_day = 17,
                 arg_hour = 8, arg_minute = 30, arg_city = Some ''New York'',
                 arg_lat = 40.7128, arg_lng = - 74.0060, arg_tz_str = ''America/New_York''\<rparr>"
  have l1: "fst (call_get_location_data offline_world []
              (case map_of (tl sample_birth) ''city'' of None \<Rightarrow> JStr ''New York'' | Some v \<Rightarrow> v))
            = Inr ?ny"
    by code_simp
  have l2: "fst (call_get_location_data offline_world []
              (case map_of ?bad ''city'' of None \<Rightarrow> JStr ''New York'' | Some v \<Rightarrow> v))
            = Inr ?ny"
    by code_simp
  have l3: "fst (call_get_location_data ?w []
              (case map_of sample_birth ''city'' of None \<Rightarrow> JStr ''New York'' | Some v \<Rightarrow> v))
            = Inr ?ny"
    by code_simp
  have d1: "first_date_error offline_world (tl sample_birth) = Some (KeyError ''year'')"
    by code_simp
  have d2: "first_date_error offline_world ?bad = Some (ValueError ''invalid literal for int()'')"
    by code_simp
  have u3: "user_subject_args ?w sample_birth ?ny = Inr ?args"
    by code_simp
  have a3: "AstrologicalSubject ?w ?args = Inl (LibraryError ''no such date'')"
    by simp
  have r1: "py_repr ''year'' = squote @ ''year'' @ squote"
    by code_simp
  have n5: "no_attribute (JArr []) ''get''
      = AttributeError (squote @ ''list'' @ squote @ '' object has no attribute ''
                        @ squote @ ''get'' @ squote)"
    by (simp add: no_attribute_def)
  note t1 = failure_response[where ext = offline_world and cache = "[]"
      and request_json = "Inr (JObj (tl sample_birth))" and kvs = "tl sample_birth"
      and loc = ?ny and e = "KeyError ''year''"]
  note t2 = failure_response[where ext = offline_world and cache = "[]"
      and request_json = "Inr (JObj ?bad)" and kvs = ?bad
      and loc = ?ny and e = "ValueError ''invalid literal for int()''"]
  note t3 = failure_response[where ext = ?w and cache = "[]"
      and request_json = "Inr (JObj sample_birth)" and kvs = sample_birth
      and loc = ?ny and e = "LibraryError ''no such date''" and user_args = ?args]
  note t4 = failure_response[where ext = offline_world and cache = "[]"
      and request_json = "Inl (RequestError ''400 Bad Request'')"
      and e = "RequestError ''400 Bad Request''"]
  note t5 = failure_response[where ext = offline_world and cache = "[]"
      and request_json = "Inr (JArr [])" and data = "JArr []"]
  from t1 l1 d1 have c1: "fst (generate_chart offline_world [] (Inr (JObj (tl sample_birth))))
       = (500, JObj [(''success'', JBool False), (''error'', JStr (squote @ ''year'' @ squote))])"
    by (simp add: error_body_def r1)
  from t2 l2 d2 have c2: "fst (generate_chart offline_world [] (Inr (JObj ?bad)))
       = (500, JObj [(''success'', JBool False), (''error'', JStr ''invalid literal for int()'')])"
    by (simp add: error_body_def)
  from t3 l3 u3 a3 have c3: "fst (generate_chart ?w [] (Inr (JObj sample_birth)))
       = (500, JObj [(''success'', JBool False), (''error'', JStr ''no such date'')])"
    by (simp add: error_body_def)
  from t4 have c4: "fst (generate_chart offline_world [] (Inl (RequestError ''400 Bad Request'')))
       = (500, JObj [(''success'', JBool False), (''error'', JStr ''400 Bad Request'')])"
    by (simp add: error_body_def)
  from t5 have c5: "fst (generate_chart offline_world [] (Inr (JArr [])))
       = (500, JObj [(''success'', JBool False),
                     (''error'', JStr (squote @ ''list'' @ squote @ '' object has no attribute ''
                                       @ squote @ ''get'' @ squote))])"
    by (simp add: error_body_def n5)
  from d1 c1 d2 c2 c3 c4 c5 show ?thesis by (intro conjI)
qed

subsection \<open>A request without the LLM\<close>

lemma call_llm_unavailable:
  "\<not> LLM_AVAILABLE ext \<or> \<not> groq_client ext \<or> (\<exists>e. create_completion ext sp up n = Inl e)
   \<Longrightarrow> fst (call_llm ext sp up n) = None"
  by (auto simp: call_llm_def)

text \<open>
  C9.  When the LLM Gateway is not configured, or its call raises, \<open>call_llm\<close> returns
  \<open>None\<close> and raises nothing.  And the request still completes: for a body whose city is a
  name of the fallback table, whose date fields \<open>int()\<close> accepts and for which the astrology
  library builds both subjects, the response is status 200, with \<open>sun\<close>, \<open>moon\<close> and
  \<open>rising\<close> the signs the library gave (non-empty when the library's are) and an
  \<open>analysis\<close> of all seven keys at their defaults.
\<close>

theorem llm_failure_tolerated:
  "((\<not> LLM_AVAILABLE ext \<or> \<not> groq_client ext \<or> (\<exists>e. create_completion ext sp up n = Inl e))
      \<longrightarrow> fst (call_llm ext sp up n) = None)
   \<and> (map_of kvs ''city'' = Some (JStr city_name)
       \<and> map_of FALLBACK_CITIES (strip (lower city_name)) = Some (t_lat, t_lng, t_tz)
       \<and> user_subject_args ext kvs \<lparr>lat = t_lat, lng = t_lng, tz = t_tz, city = title city_name\<rparr>
           = Inr user_args
       \<and> AstrologicalSubject ext user_args = Inr user
       \<and> AstrologicalSubject ext
           (sky_now_args (datetime_now ext)
              \<lparr>lat = t_lat, lng = t_lng, tz = t_tz, city = title city_name\<rparr>) = Inr sky_now
       \<and> (\<not> LLM_AVAILABLE ext \<or> \<not> groq_client ext
           \<or> (\<exists>e. create_completion ext system_prompt (prompt user sky_now) 2500 = Inl e))
      \<longrightarrow> fst (generate_chart ext (cache_after calls) (Inr (JObj kvs)))
          = (200,
             JObj [(''success'', JBool True),
                   (''data'',
                    JObj [(''sun'', JStr (sun user)), (''moon'', JStr (moon user)),
                          (''rising'', JStr (first_house user)),
                          (''analysis'',
                           JObj [(''personality'', JStr []), (''love'', JStr []),
                                 (''career'', JStr []), (''future'', JStr []),
                                 (''life'', JStr []), (''number'', JStr ''7''),
                                 (''color'', JStr ''Gold'')])])]))"
proof (intro conjI impI)
  assume "\<not> LLM_AVAILABLE ext \<or> \<not> groq_client ext \<or> (\<exists>e. create_completion ext sp up n = Inl e)"
  then show "fst (call_llm ext sp up n) = None" by (rule call_llm_unavailable)
next
  let ?loc = "\<lparr>lat = t_lat, lng = t_lng, tz = t_tz, city = title city_name\<rparr>"
  assume a: "map_of kvs ''city'' = Some (JStr city_name)
       \<and> map_of FALLBACK_CITIES (strip (lower city_name)) = Some (t_lat, t_lng, t_tz)
       \<and> user_subject_args ext kvs ?loc = Inr user_args
       \<and> AstrologicalSubject ext user_args = Inr user
       \<and> AstrologicalSubject ext (sky_now_args (datetime_now ext) ?loc) = Inr sky_now
       \<and> (\<not> LLM_AVAILABLE ext \<or> \<not> groq_client ext
           \<or> (\<exists>e. create_completion ext system_prompt (prompt user sky_now) 2500 = Inl e))"
  obtain r evs c' where g: "get_location_data ext (cache_after calls) city_name = (r, evs, c')"
    by (cases "get_location_data ext (cache_after calls) city_name")
  from a have key: "map_of FALLBACK_CITIES (strip (lower city_name)) = Some (t_lat, t_lng, t_tz)"
    by simp
  from resolve_fallback(1)[OF cache_sound_after key, of ext calls] g
  have r: "r = ?loc" by simp
  obtain an evs' where l: "call_llm ext system_prompt (prompt user sky_now) 2500 = (an, evs')"
    by (cases "call_llm ext system_prompt (prompt user sky_now) 2500")
  from a have "fst (call_llm ext system_prompt (prompt user sky_now) 2500) = None"
    by (intro call_llm_unavailable) simp
  with l have an: "an = None" by simp
  have ch: "chart_and_analysis ext kvs ?loc =
      (Inr (success_body user default_results),
       [Subject user_args, Subject (sky_now_args (datetime_now ext) ?loc)] @ evs')"
    using a l an by (simp add: chart_and_analysis_def Let_def parse_sections_def)
  have "fst (generate_chart_try ext (cache_after calls) (Inr (JObj kvs)))
      = Inr (success_body user default_results)"
    using a g r ch
    by (simp add: generate_chart_try_def call_get_location_data_def)
  then show "fst (generate_chart ext (cache_after calls) (Inr (JObj kvs)))
          = (200,
             JObj [(''success'', JBool True),
                   (''data'',
                    JObj [(''sun'', JStr (sun user)), (''moon'', JStr (moon user)),
                          (''rising'', JStr (first_house user)),
                          (''analysis'',
                           JObj [(''personality'', JStr []), (''love'', JStr []),
                                 (''career'', JStr []), (''future'', JStr []),
                                 (''life'', JStr []), (''number'', JStr ''7''),
                                 (''color'', JStr ''Gold'')])])])"
    by (auto simp: generate_chart_def success_body_def analysis_json_def default_results_def
        split: prod.splits sum.splits)
qed

theorem llm_failure_tolerated_witness:
  "map_of ((''city'', JStr ''Mumbai'') # sample_birth) ''city'' = Some (JStr ''Mumbai'')
   \<and> map_of FALLBACK_CITIES (strip (lower ''Mumbai'')) = Some (19.0760, 72.8777, ''Asia/Kolkata'')
   \<and> \<not> LLM_AVAILABLE offline_world
   \<and> fst (call_llm offline_world system_prompt [] 2500) = None
   \<and> fst (generate_chart offline_world (cache_after [])
             (Inr (JObj ((''city'', JStr ''Mumbai'') # sample_birth))))
       = (200,
          JObj [(''success'', JBool True),
                (''data'',
                 JObj [(''sun'', JStr ''Ari''), (''moon'', JStr ''Tau''), (''rising'', JStr ''Gem''),
                       (''analysis'',
                        JObj [(''personality'', JStr []), (''love'', JStr []),
                              (''career'', JStr []), (''future'', JStr []),
                              (''life'', JStr []), (''number'', JStr ''7''),
                              (''color'', JStr ''Gold'')])])])
   \<and> LLM_AVAILABLE (offline_world\<lparr>LLM_AVAILABLE := True, groq_client := True\<rparr>)
   \<and> groq_client (offline_world\<lparr>LLM_AVAILABLE := True, groq_client := True\<rparr>)
   \<and> fst (generate_chart (offline_world\<lparr>LLM_AVAILABLE := True, groq_client := True\<rparr>)
             (cache_after []) (Inr (JObj ((''city'', JStr ''Mumbai'') # sample_birth))))
       = (200,
          JObj [(''success'', JBool True),
                (''data'',
                 JObj [(''sun'', JStr ''Ari''), (''moon'', JStr ''Tau''), (''rising'', JStr ''Gem''),
                       (''analysis'',
                        JObj [(''personality'', JStr []), (''love'', JStr []),
                              (''career'', JStr []), (''future'', JStr []),
                              (''life'', JStr []), (''number'', JStr ''7''),
                              (''color'', JStr ''Gold'')])])])"
proof -
  let ?kvs = "(''city'', JStr ''Mumbai'') # sample_birth"
  let ?loc = "\<lparr>lat = 19.0760, lng = 72.8777, tz = ''Asia/Kolkata'', city = title ''Mumbai''\<rparr>"
  let ?args = "\<lparr>arg_name = JStr ''User'', arg_year = 1990, arg_month = 5, arg_day = 17,
                 arg_hour = 8, arg_minute = 30, arg_city = Some ''Mumbai'',
                 arg_lat = 19.0760, arg_lng = 72.8777, arg_tz_str = ''Asia/Kolkata''\<rparr>"
  let ?chart = "\<lparr>sun = ''Ari'', moon = ''Tau'', first_house = ''Gem'', venus = ''Can'',
                  mars = ''Leo'', jupiter = ''Vir'', saturn = ''Lib''\<rparr>"
  let ?w = "offline_world\<lparr>LLM_AVAILABLE := True, groq_client := True\<rparr>"
  have c: "map_of ?kvs ''city'' = Some (JStr ''Mumbai'')" by simp
  have "strip (lower ''Mumbai'') = ''mumbai''" by code_simp
  then have k: "map_of FALLBACK_CITIES (strip (lower ''Mumbai'')) = Some (19.0760, 72.8777, ''Asia/Kolkata'')"
    by (simp add: FALLBACK_CITIES_def)
  have u: "user_subject_args offline_world ?kvs ?loc = Inr ?args" by code_simp
  have u': "user_subject_args ?w ?kvs ?loc = Inr ?args" by code_simp
  have s1: "AstrologicalSubject offline_world ?args = Inr ?chart"
    and s2: "AstrologicalSubject offline_world (sky_now_args (datetime_now offline_world) ?loc) = Inr ?chart"
    and s1': "AstrologicalSubject ?w ?args = Inr ?chart"
    and s2': "AstrologicalSubject ?w (sky_now_args (datetime_now ?w) ?loc) = Inr ?chart"
    by (simp_all add: offline_world_def)
  have off: "\<not> LLM_AVAILABLE offline_world" by (simp add: offline_world_def)
  have on: "LLM_AVAILABLE ?w" "groq_client ?w" by simp_all
  have raises: "create_completion ?w system_prompt (prompt ?chart ?chart) 2500 = Inl (LibraryError ''no client'')"
    by (simp add: offline_world_def)
  note t1 = llm_failure_tolerated[where ext = offline_world and sp = system_prompt and up = "[]"
      and n = 2500 and kvs = ?kvs and city_name = "''Mumbai''" and t_lat = "19.0760"
      and t_lng = "72.8777" and t_tz = "''Asia/Kolkata''" and user_args = ?args and user = ?chart
      and sky_now = ?chart and calls = "[]"]
  note t2 = llm_failure_tolerated[where ext = ?w and sp = system_prompt and up = "[]"
      and n = 2500 and kvs = ?kvs and city_name = "''Mumbai''" and t_lat = "19.0760"
      and t_lng = "72.8777" and t_tz = "''Asia/Kolkata''" and user_args = ?args and user = ?chart
      and sky_now = ?chart and calls = "[]"]
  from t1 off have a1: "fst (call_llm offline_world system_prompt [] 2500) = None"
    by blast
  from t1 c k u s1 s2 off
  have a2: "fst (generate_chart offline_world (cache_after []) (Inr (JObj ?kvs)))
       = (200,
          JObj [(''success'', JBool True),
                (''data'',
                 JObj [(''sun'', JStr ''Ari''), (''moon'', JStr ''Tau''), (''rising'', JStr ''Gem''),
                       (''analysis'',
                        JObj [(''personality'', JStr []), (''love'', JStr []),
                              (''career'', JStr []), (''future'', JStr []),
                              (''life'', JStr []), (''number'', JStr ''7''),
                              (''color'', JStr ''Gold'')])])])"
    by simp
  from t2 c k u' s1' s2' raises
  have a3: "fst (generate_chart ?w (cache_after []) (Inr (JObj ?kvs)))
       = (200,
          JObj [(''success'', JBool True),
                (''data'',
                 JObj [(''sun'', JStr ''Ari''), (''moon'', JStr ''Tau''), (''rising'', JStr ''Gem''),
                       (''analysis'',
                        JObj [(''personality'', JStr []), (''love'', JStr []),
                              (''career'', JStr []), (''future'', JStr []),
                              (''life'', JStr []), (''number'', JStr ''7''),
                              (''color'', JStr ''Gold'')])])])"
    by simp
  from c k off a1 a2 on a3 show ?thesis by blast
qed


section \<open>Properties of the cache\<close>

lemma step_keys:
  "map fst (cache_step c (ext, k)) =
     (if k \<in> set (map fst c) then k # filter (\<lambda>x. x \<noteq> k) (map fst c)
      else k # (if maxsize \<le> length c then butlast (map fst c) else map fst c))"
proof (cases "map_of c k")
  case None
  then have "k \<notin> set (map fst c)" by (simp add: map_of_eq_None_iff)
  with None show ?thesis
    by (simp add: cache_step_def get_location_data_def map_butlast split: prod.splits)
next
  case (Some v)
  then have "k \<in> set (map fst c)" by (metis map_of_eq_None_iff option.distinct(1) set_map)
  with Some show ?thesis
    by (simp add: cache_step_def get_location_data_def filter_map comp_def)
qed

lemma recent_snoc:
  "rev (remdups (ks @ [k])) = k # filter (\<lambda>x. x \<noteq> k) (rev (remdups ks))"
proof -
  have "remdups (ks @ [k]) = filter (\<lambda>x. x \<noteq> k) (remdups ks) @ [k]"
    by (induction ks) auto
  then show ?thesis by (simp add: rev_filter)
qed

lemma take_filter_distinct:
  "distinct R \<Longrightarrow>
   take n (filter (\<lambda>x. x \<noteq> k) R) =
     (if k \<in> set (take (Suc n) R) then filter (\<lambda>x. x \<noteq> k) (take (Suc n) R) else take n R)"
proof (induction R arbitrary: n)
  case Nil
  then show ?case by simp
next
  case (Cons x xs)
  show ?case
  proof (cases n)
    case 0
    then show ?thesis by simp
  next
    case (Suc m)
    show ?thesis
    proof (cases "x = k")
      case True
      with Cons.prems have "k \<notin> set xs" by simp
      then have "filter (\<lambda>x. x \<noteq> k) xs = xs" "filter (\<lambda>x. x \<noteq> k) (take (Suc m) xs) = take (Suc m) xs"
        by (auto simp: filter_id_conv dest: in_set_takeD)
      with True Suc show ?thesis by simp
    next
      case False
      from Cons.prems have "distinct xs" by simp
      from Cons.IH[OF this, of m] False Suc show ?thesis by simp
    qed
  qed
qed

lemma take_filter_distinct_pos:
  assumes "distinct R" "0 < n"
  shows "take (n - 1) (filter (\<lambda>x. x \<noteq> k) R) =
     (if k \<in> set (take n R) then filter (\<lambda>x. x \<noteq> k) (take n R) else take (n - 1) R)"
  using take_filter_distinct[OF assms(1), of "n - 1" k] assms(2) by simp

lemma maxsize_pos: "0 < maxsize"
  by (simp add: maxsize_def)

lemma keys_after:
  "map fst (cache_after calls) = take maxsize (rev (remdups (map snd calls)))"
proof (induction calls rule: rev_induct)
  case Nil
  show ?case by (simp add: cache_after_def)
next
  case (snoc call calls)
  obtain ext k where call: "call = (ext, k)" by (cases call)
  define R where "R = rev (remdups (map snd calls))"
  define K where "K = take maxsize R"
  have d: "distinct R" by (simp add: R_def)
  have keys: "map fst (cache_after calls) = K"
    using snoc.IH by (simp add: K_def R_def)
  then have len: "length (cache_after calls) = length K"
    by (metis length_map)
  have "map fst (cache_after (calls @ [call])) =
      (if k \<in> set K then k # filter (\<lambda>x. x \<noteq> k) K
       else k # (if maxsize \<le> length K then butlast K else K))"
    unfolding cache_after_snoc call step_keys keys len by simp
  also have "\<dots> = k # take (maxsize - 1) (filter (\<lambda>x. x \<noteq> k) R)"
  proof -
    have else_eq: "(if maxsize \<le> length K then butlast K else K) = take (maxsize - 1) R"
    proof (cases "maxsize \<le> length R")
      case True
      then show ?thesis by (simp add: K_def butlast_take)
    next
      case False
      then show ?thesis by (simp add: K_def)
    qed
    have A: "take (maxsize - 1) (filter (\<lambda>x. x \<noteq> k) R) =
        (if k \<in> set K then filter (\<lambda>x. x \<noteq> k) K else take (maxsize - 1) R)"
      using take_filter_distinct_pos[OF d maxsize_pos, of k] by (simp only: K_def)
    show ?thesis
    proof (cases "k \<in> set K")
      case True
      then show ?thesis using A by simp
    next
      case False
      then show ?thesis using A else_eq by simp
    qed
  qed
  also have "\<dots> = take maxsize (k # filter (\<lambda>x. x \<noteq> k) R)"
    using maxsize_pos by (simp add: take_Cons')
  also have "\<dots> = take maxsize (rev (remdups (map snd (calls @ [call]))))"
    by (simp add: call recent_snoc R_def)
  finally show ?case .
qed

lemma repeat_call:
  assumes "get_location_data ext c k = (r1, evs1, c1)"
  shows "get_location_data ext' c1 k = (r1, [], c1)"
proof (cases "map_of c k")
  case None
  then have nk: "k \<notin> fst ` set c" by (simp add: map_of_eq_None_iff)
  then have "k \<notin> fst ` set (butlast c)" by (auto dest: in_set_butlastD)
  with nk have f: "filter (\<lambda>e. fst e \<noteq> k) (if maxsize \<le> length c then butlast c else c)
      = (if maxsize \<le> length c then butlast c else c)"
    by (auto simp: filter_id_conv)
  from assms None have "c1 = (k, r1) # (if maxsize \<le> length c then butlast c else c)"
    by (auto simp: get_location_data_def split: prod.splits)
  with f show ?thesis by (simp add: get_location_data_def)
next
  case (Some v)
  with assms have "r1 = v" "c1 = (k, v) # filter (\<lambda>e. fst e \<noteq> k) c"
    by (auto simp: get_location_data_def)
  then show ?thesis by (simp add: get_location_data_def)
qed


text \<open>
  Against C1 as stated: \<open>Paris\<close> and \<open>paris\<close> have the same lowercase-trimmed form, and a
  call with each makes its own geocoder lookup; \<open>" delhi"\<close> and \<open>delhi\<close> have the same
  lowercase-trimmed form, and the records returned for them differ in the city field.
\<close>

theorem location_cache_counterexample:
  "strip (lower ''Paris'') = strip (lower ''paris'')
   \<and> fst (snd (get_location_data offline_world [] ''paris'')) = [Geocode ''paris'']
   \<and> fst (snd (get_location_data offline_world (cache_after [(offline_world, ''paris'')]) ''Paris''))
       = [Geocode ''Paris'']
   \<and> strip (lower '' delhi'') = strip (lower ''delhi'')
   \<and> city (fst (get_location_data offline_world [] ''delhi'')) = ''Delhi''
   \<and> city (fst (get_location_data offline_world (cache_after [(offline_world, ''delhi'')]) '' delhi''))
       = '' Delhi''"
  by code_simp

text \<open>
  C1 (as amended).  The Location Resolver memoizes its results keyed by the input string
  exactly as given.  After any sequence of calls the cache holds the at most 100 most
  recently used distinct input strings, the most recent first.  A call with a string that
  has an entry returns the memoized record and makes no lookup; so does a call repeated at
  once with the same string, whatever the outside world would answer then, and it leaves the
  cache as it is.  A call that misses a cache of 100 entries evicts the least recently used
  one.
\<close>

theorem location_cache:
  "map fst (cache_after calls) = take 100 (rev (remdups (map snd calls)))
   \<and> length (cache_after calls) \<le> 100
   \<and> distinct (map fst (cache_after calls))
   \<and> (\<forall>hit. map_of (cache_after calls) city_name = Some hit \<longrightarrow>
         fst (get_location_data ext (cache_after calls) city_name) = hit
         \<and> fst (snd (get_location_data ext (cache_after calls) city_name)) = [])
   \<and> (case get_location_data ext cache city_name of
         (result, evs, cache') \<Rightarrow> get_location_data ext' cache' city_name = (result, [], cache'))
   \<and> (map_of (cache_after calls) city_name = None \<and> length (cache_after calls) = 100 \<longrightarrow>
         snd (snd (get_location_data ext (cache_after calls) city_name))
           = (city_name, fst (get_location_data ext (cache_after calls) city_name))
             # butlast (cache_after calls))"
proof -
  have keys: "map fst (cache_after calls) = take 100 (rev (remdups (map snd calls)))"
    using keys_after[of calls] by (simp add: maxsize_def)
  have "length (map fst (cache_after calls)) \<le> 100"
    unfolding keys by simp
  then have len: "length (cache_after calls) \<le> 100" by simp
  have dist: "distinct (map fst (cache_after calls))"
    unfolding keys by (simp add: distinct_take)
  have hit: "\<forall>hit. map_of (cache_after calls) city_name = Some hit \<longrightarrow>
         fst (get_location_data ext (cache_after calls) city_name) = hit
         \<and> fst (snd (get_location_data ext (cache_after calls) city_name)) = []"
    by (simp add: get_location_data_def)
  have rep: "case get_location_data ext cache city_name of
         (result, evs, cache') \<Rightarrow> get_location_data ext' cache' city_name = (result, [], cache')"
    by (auto split: prod.splits intro: repeat_call)
  have evict: "map_of (cache_after calls) city_name = None \<and> length (cache_after calls) = 100 \<longrightarrow>
         snd (snd (get_location_data ext (cache_after calls) city_name))
           = (city_name, fst (get_location_data ext (cache_after calls) city_name))
             # butlast (cache_after calls)"
    by (simp add: get_location_data_def maxsize_def split: prod.splits)
  from keys len dist hit rep evict show ?thesis by blast
qed

theorem location_cache_witness:
  "map fst (cache_after [(offline_world, ''paris''), (offline_world, ''Delhi''), (offline_world, ''paris'')])
     = [''paris'', ''Delhi'']
   \<and> map_of (cache_after [(offline_world, ''paris''), (offline_world, ''Delhi''), (offline_world, ''paris'')]) ''Delhi''
       = Some \<lparr>lat = 28.6139, lng = 77.2090, tz = ''Asia/Kolkata'', city = ''Delhi''\<rparr>
   \<and> get_location_data (offline_world\<lparr>geocode := \<lambda>q. GeoRaises (LibraryError ''timed out'')\<rparr>)
        (cache_after [(offline_world, ''paris''), (offline_world, ''Delhi''), (offline_world, ''paris'')]) ''paris''
       = (\<lparr>lat = 40.7128, lng = - 74.0060, tz = ''America/New_York'', city = ''New York''\<rparr>, [],
          cache_after [(offline_world, ''paris''), (offline_world, ''Delhi''), (offline_world, ''paris'')])"
proof -
  let ?calls = "[(offline_world, ''paris''), (offline_world, ''Delhi''), (offline_world, ''paris'')]"
  let ?w = "offline_world\<lparr>geocode := \<lambda>q. GeoRaises (LibraryError ''timed out'')\<rparr>"
  let ?ny = "\<lparr>lat = 40.7128, lng = - 74.0060, tz = ''America/New_York'', city = ''New York''\<rparr>"
  note t = location_cache[where calls = ?calls and city_name = "''paris''" and ext = ?w
      and ext' = ?w and cache = "cache_after [(offline_world, ''paris''), (offline_world, ''Delhi'')]"]
  from t have k: "map fst (cache_after ?calls) = [''paris'', ''Delhi'']"
    by simp
  have d: "map_of (cache_after ?calls) ''Delhi''
       = Some \<lparr>lat = 28.6139, lng = 77.2090, tz = ''Asia/Kolkata'', city = ''Delhi''\<rparr>"
    by code_simp
  have p: "map_of (cache_after ?calls) ''paris'' = Some ?ny"
    by code_simp
  have c: "cache_after ?calls =
      [(''paris'', ?ny), (''Delhi'', \<lparr>lat = 28.6139, lng = 77.2090, tz = ''Asia/Kolkata'', city = ''Delhi''\<rparr>)]"
    by code_simp
  from t p have "fst (get_location_data ?w (cache_after ?calls) ''paris'') = ?ny"
    "fst (snd (get_location_data ?w (cache_after ?calls) ''paris'')) = []"
    by blast+
  moreover have "snd (snd (get_location_data ?w (cache_after ?calls) ''paris'')) = cache_after ?calls"
    unfolding c by (simp add: get_location_data_def)
  ultimately have "get_location_data ?w (cache_after ?calls) ''paris'' = (?ny, [], cache_after ?calls)"
    by (metis prod.collapse)
  with k d show ?thesis by blast
qed

end
